theory Spec2Isabelle
  imports Complex_Main
begin

section \<open>Roles and permissions\<close>

text \<open>
  \<^verbatim>\<open>export type UserRole = "ADMIN" | "MANAGER" | "SALES" | "BASIC"\<close> and the
  \<^verbatim>\<open>Permission\<close> enum of \<^verbatim>\<open>src/lib/auth/permissions.ts\<close>. The role \<^verbatim>\<open>"BASIC"\<close> and the
  permission \<^verbatim>\<open>Permission.BASIC\<close> share a name, as in the source; they are told apart by
  their qualified names \<open>UserRole.BASIC\<close> and \<open>Permission.BASIC\<close>.
\<close>

datatype UserRole = ADMIN | MANAGER | SALES | BASIC

datatype Permission =
    STORE_CREATE | STORE_READ | STORE_READ_ALL | STORE_UPDATE | STORE_DELETE
  | PRODUCT_CREATE | PRODUCT_READ | PRODUCT_UPDATE | PRODUCT_DELETE | PRODUCT_MANAGE_PRICES
  | ORDER_CREATE | ORDER_READ | ORDER_READ_OWN | ORDER_READ_ALL | ORDER_UPDATE | ORDER_DELETE
  | ORDER_APPROVE | ORDER_REJECT | ORDER_GENERATE_PO
  | VISIT_CREATE | VISIT_READ | VISIT_READ_OWN | VISIT_READ_ALL | VISIT_UPDATE | VISIT_DELETE
  | VISIT_DELETE_ALL
  | USER_READ | USER_UPDATE | USER_MANAGE_ROLES | USER_DELETE
  | REPORT_VIEW
  | BASIC

text \<open>The string each role literal denotes at run time.\<close>

fun UserRole_name :: "UserRole \<Rightarrow> string" where
  "UserRole_name ADMIN = ''ADMIN''"
| "UserRole_name MANAGER = ''MANAGER''"
| "UserRole_name SALES = ''SALES''"
| "UserRole_name UserRole.BASIC = ''BASIC''"

text \<open>\<^verbatim>\<open>ROLE_PERMISSIONS: Record<UserRole, Permission[]>\<close>, each array in the source's order.\<close>

fun ROLE_PERMISSIONS :: "UserRole \<Rightarrow> Permission list" where
  "ROLE_PERMISSIONS ADMIN =
     [STORE_CREATE, STORE_READ, STORE_READ_ALL, STORE_UPDATE, STORE_DELETE,
      PRODUCT_CREATE, PRODUCT_READ, PRODUCT_UPDATE, PRODUCT_DELETE, PRODUCT_MANAGE_PRICES,
      ORDER_CREATE, ORDER_READ, ORDER_READ_ALL, ORDER_UPDATE, ORDER_DELETE, ORDER_APPROVE,
      ORDER_REJECT, ORDER_GENERATE_PO,
      VISIT_CREATE, VISIT_READ, VISIT_READ_ALL, VISIT_UPDATE, VISIT_DELETE, VISIT_DELETE_ALL,
      USER_READ, USER_UPDATE, USER_MANAGE_ROLES, USER_DELETE,
      REPORT_VIEW,
      Permission.BASIC]"
| "ROLE_PERMISSIONS SALES =
     [STORE_READ, STORE_CREATE,
      PRODUCT_READ,
      ORDER_CREATE, ORDER_READ, ORDER_READ_OWN, ORDER_UPDATE,
      VISIT_CREATE, VISIT_READ, VISIT_READ_OWN, VISIT_UPDATE,
      Permission.BASIC]"
| "ROLE_PERMISSIONS MANAGER =
     [STORE_READ, STORE_READ_ALL,
      PRODUCT_READ,
      ORDER_READ, ORDER_READ_ALL,
      VISIT_READ, VISIT_READ_ALL,
      USER_READ,
      REPORT_VIEW,
      Permission.BASIC]"
| "ROLE_PERMISSIONS UserRole.BASIC = [Permission.BASIC]"

text \<open>
  \<^verbatim>\<open>validateUserRole(role: string): UserRole\<close>. \<^verbatim>\<open>validRoles.includes(role)\<close> compares
  the string with each role literal in turn; the cast \<^verbatim>\<open>role as UserRole\<close> is the role
  whose literal the string is.
\<close>

definition validRoles :: "UserRole list" where
  "validRoles = [ADMIN, MANAGER, SALES, UserRole.BASIC]"

definition validateUserRole :: "string \<Rightarrow> UserRole" where
  "validateUserRole role =
     (case find (\<lambda>r. UserRole_name r = role) validRoles of
        Some r \<Rightarrow> r
      | None \<Rightarrow> UserRole.BASIC)"

text \<open>
  \<^verbatim>\<open>hasPermission(userRole, permission, isUserActive = true, userId?, resourceOwnerId?)\<close>.
  The two optional ids are \<open>string option\<close>, \<open>None\<close> being \<^verbatim>\<open>undefined\<close>; the
  strict equality \<^verbatim>\<open>userId === resourceOwnerId\<close> is equality of these options (two
  \<^verbatim>\<open>undefined\<close> are strictly equal). \<^verbatim>\<open>ROLE_PERMISSIONS[userRole]\<close> is defined for each
  of the four roles, so the \<^verbatim>\<open>?.\<close> never short-circuits on a value of type
  \<^verbatim>\<open>UserRole\<close>.
\<close>

definition hasPermission ::
  "UserRole \<Rightarrow> Permission \<Rightarrow> bool \<Rightarrow> string option \<Rightarrow> string option \<Rightarrow> bool" where
  "hasPermission userRole permission isUserActive userId resourceOwnerId =
     (if \<not> isUserActive \<and> permission \<noteq> Permission.BASIC then False
      else if \<not> List.member (ROLE_PERMISSIONS userRole) permission then False
      else if permission = ORDER_READ_OWN \<or> permission = VISIT_READ_OWN
        then userId = resourceOwnerId
      else True)"

text \<open>\<^verbatim>\<open>BusinessRules.canEditOrder(role, orderStatus, userId, orderOwnerId)\<close>.\<close>

definition canEditOrder :: "UserRole \<Rightarrow> string \<Rightarrow> string \<Rightarrow> string \<Rightarrow> bool" where
  "canEditOrder role orderStatus userId orderOwnerId =
     (if role = ADMIN then True
      else if role = SALES \<and> orderStatus = ''DRAFT'' \<and> userId = orderOwnerId then True
      else False)"

section \<open>Order numbers\<close>

text \<open>
  \<^verbatim>\<open>String(n)\<close> for an integer \<open>n\<close>: its decimal digits, most significant first, with a
  leading minus sign for a negative one. (JavaScript prints every digit of an integer of
  magnitude below \<open>10^21\<close>; the dates and counters here are far below that.)
\<close>

definition digit_char :: "nat \<Rightarrow> char" where
  "digit_char d = char_of (48 + d)"

fun String_nat :: "nat \<Rightarrow> string" where
  "String_nat n = (if n < 10 then [digit_char n] else String_nat (n div 10) @ [digit_char (n mod 10)])"

definition String_int :: "int \<Rightarrow> string" where
  "String_int i = (if i < 0 then CHR ''-'' # String_nat (nat (- i)) else String_nat (nat i))"

text \<open>\<^verbatim>\<open>s.padStart(n, c)\<close> for a one-character pad string: never shortens \<open>s\<close>.\<close>

definition padStart :: "nat \<Rightarrow> char \<Rightarrow> string \<Rightarrow> string" where
  "padStart n c s = replicate (n - length s) c @ s"

text \<open>
  What \<^verbatim>\<open>generateOrderNumber\<close> reads from \<^verbatim>\<open>new Date()\<close>: the local year, the month index
  (0 for January) and the day of the month. The clock is an input of the model.
\<close>

record Date =
  getFullYear :: int
  getMonth :: int
  getDate :: int

text \<open>
  \<^verbatim>\<open>generateOrderNumber(sequence = 1)\<close>, for an integer \<^verbatim>\<open>sequence\<close> (the counter its callers
  pass).
\<close>

definition generateOrderNumber :: "Date \<Rightarrow> int \<Rightarrow> string" where
  "generateOrderNumber now sequence =
     (let year = getFullYear now;
          month = padStart 2 (CHR ''0'') (String_int (getMonth now + 1));
          day = padStart 2 (CHR ''0'') (String_int (getDate now));
          dateStr = String_int year @ month @ day;
          seq = padStart 3 (CHR ''0'') (String_int sequence)
      in ''PO-'' @ dateStr @ ''-'' @ seq)"

text \<open>
  The format \<^verbatim>\<open>PO-YYYYMMDD-NNN\<close> as a predicate on strings, and the numbers its two digit
  groups denote.
\<close>

definition is_digit :: "char \<Rightarrow> bool" where
  "is_digit c = ((48::nat) \<le> of_char c \<and> of_char c \<le> (57::nat))"

definition digit_value :: "char \<Rightarrow> nat" where
  "digit_value c = of_char c - 48"

definition number_of_digits :: "string \<Rightarrow> nat" where
  "number_of_digits s = foldl (\<lambda>acc c. 10 * acc + digit_value c) 0 s"

definition matches_PO_format :: "string \<Rightarrow> bool" where
  "matches_PO_format s =
     (length s = 15 \<and> take 3 s = ''PO-'' \<and> list_all is_digit (take 8 (drop 3 s)) \<and>
      s ! 11 = CHR ''-'' \<and> list_all is_digit (drop 12 s))"

definition date_digits :: "string \<Rightarrow> string" where
  "date_digits s = take 8 (drop 3 s)"

definition sequence_digits :: "string \<Rightarrow> string" where
  "sequence_digits s = drop 12 s"

section \<open>Order status transitions\<close>

text \<open>
  \<^verbatim>\<open>statusTransitionMap: Record<string, string[]>\<close> is an object literal; these are its own
  properties.
\<close>

definition statusTransitionMap :: "(string \<times> string list) list" where
  "statusTransitionMap =
     [(''DRAFT'', [''DISETUJUI'', ''TIDAK_TERKIRIM'']),
      (''DISETUJUI'', [''TERKIRIM'', ''TIDAK_TERKIRIM'']),
      (''TERKIRIM'', []),
      (''TIDAK_TERKIRIM'', [''DISETUJUI''])]"

text \<open>
  Reading \<^verbatim>\<open>obj[key]\<close> on an object literal finds an own property first and then walks the
  prototype chain, so a key that names a property of \<^verbatim>\<open>Object.prototype\<close> reads as that
  inherited function (or, for \<^verbatim>\<open>__proto__\<close>, the prototype object) and not as
  \<^verbatim>\<open>undefined\<close>. None of these inherited values has an \<^verbatim>\<open>includes\<close> method.
\<close>

definition Object_prototype_keys :: "string list" where
  "Object_prototype_keys =
     [''constructor'', ''__defineGetter__'', ''__defineSetter__'', ''hasOwnProperty'',
      ''__lookupGetter__'', ''__lookupSetter__'', ''isPrototypeOf'', ''propertyIsEnumerable'',
      ''toString'', ''valueOf'', ''__proto__'', ''toLocaleString'']"

datatype property_value = Undefined_value | Own_array "string list" | Inherited_value

definition get_property :: "(string \<times> string list) list \<Rightarrow> string \<Rightarrow> property_value" where
  "get_property obj key =
     (case map_of obj key of
        Some v \<Rightarrow> Own_array v
      | None \<Rightarrow> if List.member Object_prototype_keys key then Inherited_value else Undefined_value)"

datatype js_error = TypeError | Error string

text \<open>
  \<^verbatim>\<open>validateStatusTransition(currentStatus: string, newStatus: string)\<close>:
  \<^verbatim>\<open>statusTransitionMap[currentStatus]?.includes(newStatus) ?? false\<close>. The \<^verbatim>\<open>?.\<close>
  short-circuits to \<^verbatim>\<open>undefined\<close> (and \<^verbatim>\<open>??\<close> to \<^verbatim>\<open>false\<close>) only when the property read is
  \<^verbatim>\<open>undefined\<close>; on an inherited value it goes on to call the missing \<^verbatim>\<open>includes\<close>, which
  throws a \<^verbatim>\<open>TypeError\<close>.
\<close>

definition validateStatusTransition :: "string \<Rightarrow> string \<Rightarrow> js_error + bool" where
  "validateStatusTransition currentStatus newStatus =
     (case get_property statusTransitionMap currentStatus of
        Undefined_value \<Rightarrow> Inr False
      | Own_array allowed \<Rightarrow> Inr (List.member allowed newStatus)
      | Inherited_value \<Rightarrow> Inl TypeError)"

section \<open>Values the validation schemas work on\<close>

text \<open>
  A field declared \<^verbatim>\<open>.nullable().optional()\<close> holds a value, \<^verbatim>\<open>null\<close> or
  \<^verbatim>\<open>undefined\<close>; a field declared \<^verbatim>\<open>.optional()\<close> or \<^verbatim>\<open>.default(d)\<close> is an \<open>option\<close>,
  \<open>None\<close> being \<^verbatim>\<open>undefined\<close>.
\<close>

datatype 'a nullish = Undefined | Null | Value 'a

text \<open>
  The numbers \<^verbatim>\<open>z.number()\<close> admits: every double except \<^verbatim>\<open>NaN\<close>. A finite double is
  the real number it denotes, which is all that the comparisons below depend on.
\<close>

datatype js_number = Finite real | PosInfinity | NegInfinity

fun js_le :: "js_number \<Rightarrow> js_number \<Rightarrow> bool" where
  "js_le (Finite x) (Finite y) = (x \<le> y)"
| "js_le NegInfinity _ = True"
| "js_le _ PosInfinity = True"
| "js_le _ _ = False"

definition js_less :: "js_number \<Rightarrow> js_number \<Rightarrow> bool" where
  "js_less a b = (\<not> js_le b a)"

text \<open>\<^verbatim>\<open>Number.isInteger\<close>, which zod's \<^verbatim>\<open>.int()\<close> applies.\<close>

fun isInteger :: "js_number \<Rightarrow> bool" where
  "isInteger (Finite x) = (x = of_int \<lfloor>x\<rfloor>)"
| "isInteger _ = False"

datatype PriceType = GROSIR | SEMI_GROSIR | RETAIL | MODERN | CUSTOM

datatype DiscountType = PERCENTAGE | FIXED

datatype OrderStatus = DRAFT | DISETUJUI | TERKIRIM | TIDAK_TERKIRIM

fun OrderStatus_name :: "OrderStatus \<Rightarrow> string" where
  "OrderStatus_name DRAFT = ''DRAFT''"
| "OrderStatus_name DISETUJUI = ''DISETUJUI''"
| "OrderStatus_name TERKIRIM = ''TERKIRIM''"
| "OrderStatus_name TIDAK_TERKIRIM = ''TIDAK_TERKIRIM''"

text \<open>
  \<^verbatim>\<open>String.prototype.trim\<close>, on strings of eight-bit code units: the white space and line
  terminators among them are tab, line feed, vertical tab, form feed, carriage return,
  space and no-break space.
\<close>

definition is_white_space :: "char \<Rightarrow> bool" where
  "is_white_space c = List.member [9, 10, 11, 12, 13, 32, 160 :: nat] (of_char c)"

definition trim :: "string \<Rightarrow> string" where
  "trim s = rev (dropWhile is_white_space (rev (dropWhile is_white_space s)))"

text \<open>\<^verbatim>\<open>str.split(c)\<close> for a one-character separator: never the empty array.\<close>

fun split_on :: "char \<Rightarrow> string \<Rightarrow> string list" where
  "split_on c [] = [[]]"
| "split_on c (x # xs) =
     (if x = c then [] # split_on c xs
      else (case split_on c xs of [] \<Rightarrow> [[x]] | p # ps \<Rightarrow> (x # p) # ps))"

text \<open>
  What the schemas call in the zod library and the JavaScript runtime, taken as given:
  zod's \<^verbatim>\<open>uuid\<close> check on a string, \<^verbatim>\<open>parseFloat\<close> (\<open>None\<close> is \<^verbatim>\<open>NaN\<close>) and
  \<^verbatim>\<open>Number.prototype.toString\<close>. Every result below holds whatever these three are.
\<close>

record library =
  uuid :: "string \<Rightarrow> bool"
  parseFloat :: "string \<Rightarrow> js_number option"
  toString :: "js_number \<Rightarrow> string"

section \<open>Validation results\<close>

text \<open>
  A violation is a path into the request and a message; the message is \<open>None\<close> where the
  source passes none and zod supplies its own text. A schema applied to a request of the
  right field types (strings, non-\<^verbatim>\<open>NaN\<close> numbers, enum members, valid dates) collects
  the violations of every field and every refinement, so its result is the list of violations
  together with the parsed data; the request is valid when the list is empty. The one way out
  of this is an exception thrown inside a transform, which zod does not catch: the call then
  throws and reports no violations at all.
\<close>

datatype path_segment = Key string | Index nat

type_synonym path = "path_segment list"

type_synonym issue = "path \<times> string option"

type_synonym 'a parse_result = "js_error + issue list \<times> 'a"

definition bind :: "'a parse_result \<Rightarrow> (issue list \<Rightarrow> 'a \<Rightarrow> 'b parse_result) \<Rightarrow> 'b parse_result" where
  "bind r f = (case r of Inl e \<Rightarrow> Inl e | Inr (issues, v) \<Rightarrow> f issues v)"

text \<open>\<^verbatim>\<open>.refine(check, {message, path})\<close>: a failed check adds one violation.\<close>

definition refine :: "bool \<Rightarrow> string \<Rightarrow> path \<Rightarrow> path \<Rightarrow> issue list" where
  "refine ok message path ctx = (if ok then [] else [(ctx @ path, Some message)])"

text \<open>A zod string or number check, with or without a message of the source's own.\<close>

definition check :: "bool \<Rightarrow> string option \<Rightarrow> path \<Rightarrow> issue list" where
  "check ok message ctx = (if ok then [] else [(ctx, message)])"

text \<open>\<^verbatim>\<open>commonValidations.id = z.string().uuid("ID harus berformat UUID yang valid")\<close>.\<close>

definition commonValidations_id :: "library \<Rightarrow> path \<Rightarrow> string \<Rightarrow> issue list" where
  "commonValidations_id lib ctx s = check (uuid lib s) (Some ''ID harus berformat UUID yang valid'') ctx"

text \<open>\<^verbatim>\<open>z.string().trim().nullable().optional()\<close>: trims a string, never a violation.\<close>

fun trimmed :: "string nullish \<Rightarrow> string nullish" where
  "trimmed Undefined = Undefined"
| "trimmed Null = Null"
| "trimmed (Value s) = Value (trim s)"

section \<open>Decimal fields\<close>

text \<open>
  \<^verbatim>\<open>decimalSchema(maxDigits, decimalPlaces, message?)\<close>: a string or a number; a string goes
  through \<^verbatim>\<open>parseFloat\<close> and the transform throws on \<^verbatim>\<open>NaN\<close>; then the value must be
  non-negative, and its printed form must fit the digit counts.
\<close>

datatype decimal_input = Text string | Number js_number

definition fits_digits :: "library \<Rightarrow> nat \<Rightarrow> nat \<Rightarrow> js_number \<Rightarrow> bool" where
  "fits_digits lib maxDigits decimalPlaces val =
     (let str = toString lib val in
      case split_on (CHR ''.'') str of
        [] \<Rightarrow> False
      | integer # rest \<Rightarrow>
          int (length integer) \<le> int maxDigits - int decimalPlaces \<and>
          (case rest of
             [] \<Rightarrow> True
           | decimal # _ \<Rightarrow> decimal = [] \<or> length decimal \<le> decimalPlaces))"

definition decimalSchema ::
  "library \<Rightarrow> nat \<Rightarrow> nat \<Rightarrow> string option \<Rightarrow> path \<Rightarrow> decimal_input \<Rightarrow> js_number parse_result" where
  "decimalSchema lib maxDigits decimalPlaces message ctx val =
     (case (case val of
              Text s \<Rightarrow>
                (case parseFloat lib s of
                   None \<Rightarrow> Inl (Error ''Format angka tidak valid'')
                 | Some num \<Rightarrow> Inr num)
            | Number n \<Rightarrow> Inr n) of
        Inl e \<Rightarrow> Inl e
      | Inr v \<Rightarrow>
          Inr (refine (js_le (Finite 0) v)
                 (case message of
                    None \<Rightarrow> ''Nilai harus non-negatif''
                  | Some m \<Rightarrow> if m = [] then ''Nilai harus non-negatif'' else m) [] ctx @
               refine (fits_digits lib maxDigits decimalPlaces v)
                 (''Nilai melebihi '' @ String_nat maxDigits @ '' digit dengan '' @
                  String_nat decimalPlaces @ '' desimal'') [] ctx,
               v))"

text \<open>The three wrappers the order schemas put around a decimal field.\<close>

definition decimal_nullish ::
  "library \<Rightarrow> nat \<Rightarrow> nat \<Rightarrow> string option \<Rightarrow> path \<Rightarrow> decimal_input nullish \<Rightarrow>
   js_number nullish parse_result" where
  "decimal_nullish lib maxDigits decimalPlaces message ctx val =
     (case val of
        Undefined \<Rightarrow> Inr ([], Undefined)
      | Null \<Rightarrow> Inr ([], Null)
      | Value d \<Rightarrow>
          bind (decimalSchema lib maxDigits decimalPlaces message ctx d)
            (\<lambda>issues v. Inr (issues, Value v)))"

definition decimal_default ::
  "library \<Rightarrow> nat \<Rightarrow> nat \<Rightarrow> string option \<Rightarrow> js_number \<Rightarrow> path \<Rightarrow> decimal_input option \<Rightarrow>
   js_number parse_result" where
  "decimal_default lib maxDigits decimalPlaces message dflt ctx val =
     (case val of
        None \<Rightarrow> decimalSchema lib maxDigits decimalPlaces message ctx (Number dflt)
      | Some d \<Rightarrow> decimalSchema lib maxDigits decimalPlaces message ctx d)"

definition decimal_optional ::
  "library \<Rightarrow> nat \<Rightarrow> nat \<Rightarrow> string option \<Rightarrow> path \<Rightarrow> decimal_input option \<Rightarrow>
   js_number option parse_result" where
  "decimal_optional lib maxDigits decimalPlaces message ctx val =
     (case val of
        None \<Rightarrow> Inr ([], None)
      | Some d \<Rightarrow>
          bind (decimalSchema lib maxDigits decimalPlaces message ctx d)
            (\<lambda>issues v. Inr (issues, Some v)))"

section \<open>Order items\<close>

text \<open>
  The fields of \<^verbatim>\<open>createOrderItemBaseSchema\<close>. The record is used twice: for a request,
  where \<^verbatim>\<open>priceType\<close> and \<^verbatim>\<open>itemDiscountValue\<close> may be missing and a decimal is a string
  or a number, and for the parsed data the refinements see, where the defaults are filled
  in and every decimal is a number.
\<close>

record ('p, 'd, 'v) CreateOrderItem =
  productId :: string
  quantity :: js_number
  priceType :: 'p
  customPrice :: "'d nullish"
  customPriceReason :: "string nullish"
  itemDiscountType :: "DiscountType nullish"
  itemDiscountValue :: 'v
  itemDiscountDescription :: "string nullish"

type_synonym 'z item_input =
  "(PriceType option, decimal_input, decimal_input option, 'z) CreateOrderItem_scheme"

type_synonym 'z item_data = "(PriceType, js_number, js_number, 'z) CreateOrderItem_scheme"

definition createOrderItemBaseSchema ::
  "library \<Rightarrow> path \<Rightarrow> 'z item_input \<Rightarrow> 'z item_data parse_result" where
  "createOrderItemBaseSchema lib ctx item =
     bind (decimal_nullish lib 8 2 (Some ''Harga kustom harus valid'')
             (ctx @ [Key ''customPrice'']) (customPrice item))
       (\<lambda>customPrice_issues customPrice_value.
     bind (decimal_default lib 10 2 (Some ''Nilai diskon harus valid'') (Finite 0)
             (ctx @ [Key ''itemDiscountValue'']) (itemDiscountValue item))
       (\<lambda>itemDiscountValue_issues itemDiscountValue_value.
     Inr (commonValidations_id lib (ctx @ [Key ''productId'']) (productId item) @
          check (isInteger (quantity item)) None (ctx @ [Key ''quantity'']) @
          check (js_less (Finite 0) (quantity item)) (Some ''Jumlah harus bilangan bulat positif'')
            (ctx @ [Key ''quantity'']) @
          customPrice_issues @
          itemDiscountValue_issues,
          \<lparr>productId = productId item,
           quantity = quantity item,
           priceType = (case priceType item of None \<Rightarrow> MODERN | Some t \<Rightarrow> t),
           customPrice = customPrice_value,
           customPriceReason = trimmed (customPriceReason item),
           itemDiscountType = itemDiscountType item,
           itemDiscountValue = itemDiscountValue_value,
           itemDiscountDescription = trimmed (itemDiscountDescription item),
           \<dots> = CreateOrderItem.more item\<rparr>)))"

text \<open>
  \<^verbatim>\<open>CreateOrderItemSchema\<close>: the base schema and its three refinements, in the source's
  order. \<^verbatim>\<open>x !== null && x !== undefined && x > 0\<close> is the case distinction on \<open>x\<close>.
\<close>

definition CreateOrderItemSchema ::
  "library \<Rightarrow> path \<Rightarrow> unit item_input \<Rightarrow> unit item_data parse_result" where
  "CreateOrderItemSchema lib ctx item =
     bind (createOrderItemBaseSchema lib ctx item) (\<lambda>issues data.
       Inr (issues @
            refine (priceType data \<noteq> CUSTOM \<or>
                    (case customPrice data of
                       Undefined \<Rightarrow> False | Null \<Rightarrow> False
                     | Value price \<Rightarrow> js_less (Finite 0) price))
              ''Harga kustom wajib diisi jika tipe harga adalah CUSTOM'' [Key ''customPrice''] ctx @
            refine (priceType data \<noteq> CUSTOM \<or>
                    (case customPriceReason data of
                       Undefined \<Rightarrow> False | Null \<Rightarrow> False
                     | Value reason \<Rightarrow> trim reason \<noteq> []))
              ''Alasan harga kustom wajib diisi jika tipe harga adalah CUSTOM''
              [Key ''customPriceReason''] ctx @
            refine (itemDiscountType data \<noteq> Value PERCENTAGE \<or>
                    js_le (itemDiscountValue data) (Finite 100))
              ''Diskon persentase tidak boleh melebihi 100%'' [Key ''itemDiscountValue''] ctx,
            data))"

text \<open>
  \<^verbatim>\<open>updateOrderItemBaseSchema = createOrderItemBaseSchema.extend({id, isDeleted})\<close>; the
  field \<^verbatim>\<open>id\<close> is \<open>item_id\<close> here.
\<close>

record ('p, 'd, 'v) UpdateOrderItem = "('p, 'd, 'v) CreateOrderItem" +
  item_id :: "string option"
  isDeleted :: "bool option"

definition updateOrderItemBaseSchema ::
  "library \<Rightarrow> path \<Rightarrow> 'z UpdateOrderItem_ext item_input \<Rightarrow>
   'z UpdateOrderItem_ext item_data parse_result" where
  "updateOrderItemBaseSchema lib ctx item =
     bind (createOrderItemBaseSchema lib ctx item) (\<lambda>issues data.
       Inr (issues @
            (case item_id item of
               None \<Rightarrow> []
             | Some s \<Rightarrow> check (uuid lib s) None (ctx @ [Key ''id''])),
            data))"

definition UpdateOrderItemSchema ::
  "library \<Rightarrow> path \<Rightarrow> unit UpdateOrderItem_ext item_input \<Rightarrow>
   unit UpdateOrderItem_ext item_data parse_result" where
  "UpdateOrderItemSchema lib ctx item =
     bind (updateOrderItemBaseSchema lib ctx item) (\<lambda>issues data.
       Inr (issues @
            refine (priceType data \<noteq> CUSTOM \<or>
                    (case customPrice data of
                       Undefined \<Rightarrow> False | Null \<Rightarrow> False
                     | Value price \<Rightarrow> js_less (Finite 0) price))
              ''Harga kustom wajib diisi jika tipe harga adalah CUSTOM'' [Key ''customPrice''] ctx @
            refine (priceType data \<noteq> CUSTOM \<or>
                    (case customPriceReason data of
                       Undefined \<Rightarrow> False | Null \<Rightarrow> False
                     | Value reason \<Rightarrow> trim reason \<noteq> []))
              ''Alasan harga kustom wajib diisi jika tipe harga adalah CUSTOM''
              [Key ''customPriceReason''] ctx @
            refine (itemDiscountType data \<noteq> Value PERCENTAGE \<or>
                    js_le (itemDiscountValue data) (Finite 100))
              ''Diskon persentase tidak boleh melebihi 100%'' [Key ''itemDiscountValue''] ctx,
            data))"

section \<open>Orders\<close>

text \<open>
  An array of items: each element is parsed under its own index, and the violations of all
  elements are collected.
\<close>

fun parse_array ::
  "(path \<Rightarrow> 'a \<Rightarrow> 'b parse_result) \<Rightarrow> path \<Rightarrow> nat \<Rightarrow> 'a list \<Rightarrow> 'b list parse_result" where
  "parse_array schema ctx i [] = Inr ([], [])"
| "parse_array schema ctx i (x # xs) =
     bind (schema (ctx @ [Index i]) x) (\<lambda>issues y.
     bind (parse_array schema ctx (Suc i) xs) (\<lambda>more_issues ys.
       Inr (issues @ more_issues, y # ys)))"

text \<open>
  The fields \<^verbatim>\<open>createOrderBaseSchema\<close> and \<^verbatim>\<open>updateOrderBaseSchema\<close> have in common, and
  the fields each adds (\<^verbatim>\<open>notes\<close> is \<open>order_notes\<close> and the order's \<^verbatim>\<open>id\<close> is
  \<open>order_id\<close> here). A date is its time value.
\<close>

record ('v, 'i) order_fields =
  orderDiscountType :: "DiscountType nullish"
  orderDiscountValue :: 'v
  orderDiscountDescription :: "string nullish"
  order_notes :: "string nullish"
  items :: "'i list"

record ('v, 'i) CreateOrder = "('v, 'i) order_fields" +
  storeId :: string
  salesId :: string
  visitId :: "string nullish"

record ('v, 'i) UpdateOrder = "('v, 'i) order_fields" +
  order_id :: string
  deliveryDate :: "int nullish"

definition createOrderBaseSchema ::
  "library \<Rightarrow> path \<Rightarrow> (decimal_input option, unit item_input) CreateOrder \<Rightarrow>
   (js_number, unit item_data) CreateOrder parse_result" where
  "createOrderBaseSchema lib ctx order =
     bind (decimal_default lib 10 2 (Some ''Nilai diskon order harus valid'') (Finite 0)
             (ctx @ [Key ''orderDiscountValue'']) (orderDiscountValue order))
       (\<lambda>orderDiscountValue_issues orderDiscountValue_value.
     bind (parse_array (CreateOrderItemSchema lib) (ctx @ [Key ''items'']) 0 (items order))
       (\<lambda>items_issues items_value.
     Inr (commonValidations_id lib (ctx @ [Key ''storeId'']) (storeId order) @
          check (uuid lib (salesId order)) None (ctx @ [Key ''salesId'']) @
          check (1 \<le> length (salesId order)) (Some ''Sales ID tidak boleh kosong'')
            (ctx @ [Key ''salesId'']) @
          (case visitId order of
             Value s \<Rightarrow> check (uuid lib s) None (ctx @ [Key ''visitId''])
           | _ \<Rightarrow> []) @
          orderDiscountValue_issues @
          check (1 \<le> length (items order)) (Some ''Order harus memiliki minimal 1 item'')
            (ctx @ [Key ''items'']) @
          items_issues,
          \<lparr>orderDiscountType = orderDiscountType order,
           orderDiscountValue = orderDiscountValue_value,
           orderDiscountDescription = trimmed (orderDiscountDescription order),
           order_notes = trimmed (order_notes order),
           items = items_value,
           storeId = storeId order,
           salesId = salesId order,
           visitId = visitId order\<rparr>)))"

text \<open>
  \<^verbatim>\<open>CreateOrderSchema\<close>. \<^verbatim>\<open>new Set(productIds).size\<close> is the number of distinct product
  ids.
\<close>

definition CreateOrderSchema ::
  "library \<Rightarrow> path \<Rightarrow> (decimal_input option, unit item_input) CreateOrder \<Rightarrow>
   (js_number, unit item_data) CreateOrder parse_result" where
  "CreateOrderSchema lib ctx order =
     bind (createOrderBaseSchema lib ctx order) (\<lambda>issues data.
       Inr (issues @
            refine (orderDiscountType data \<noteq> Value PERCENTAGE \<or>
                    js_le (orderDiscountValue data) (Finite 100))
              ''Diskon persentase tidak boleh melebihi 100%'' [Key ''orderDiscountValue''] ctx @
            refine (let productIds = map productId (items data)
                    in length (remdups productIds) = length productIds)
              ''Produk tidak boleh duplikat dalam satu order'' [Key ''items''] ctx,
            data))"

definition updateOrderBaseSchema ::
  "library \<Rightarrow> path \<Rightarrow> (decimal_input option, unit UpdateOrderItem_ext item_input) UpdateOrder \<Rightarrow>
   (js_number option, unit UpdateOrderItem_ext item_data) UpdateOrder parse_result" where
  "updateOrderBaseSchema lib ctx order =
     bind (decimal_optional lib 10 2 (Some ''Nilai diskon order harus valid'')
             (ctx @ [Key ''orderDiscountValue'']) (orderDiscountValue order))
       (\<lambda>orderDiscountValue_issues orderDiscountValue_value.
     bind (parse_array (UpdateOrderItemSchema lib) (ctx @ [Key ''items'']) 0 (items order))
       (\<lambda>items_issues items_value.
     Inr (commonValidations_id lib (ctx @ [Key ''id'']) (order_id order) @
          orderDiscountValue_issues @
          check (1 \<le> length (items order)) (Some ''Order harus memiliki minimal 1 item'')
            (ctx @ [Key ''items'']) @
          items_issues,
          \<lparr>orderDiscountType = orderDiscountType order,
           orderDiscountValue = orderDiscountValue_value,
           orderDiscountDescription = trimmed (orderDiscountDescription order),
           order_notes = trimmed (order_notes order),
           items = items_value,
           order_id = order_id order,
           deliveryDate = deliveryDate order\<rparr>)))"

text \<open>
  \<^verbatim>\<open>UpdateOrderSchema\<close>. \<^verbatim>\<open>!item.isDeleted\<close> holds of an item whose flag is missing or
  \<^verbatim>\<open>false\<close>.
\<close>

definition UpdateOrderSchema ::
  "library \<Rightarrow> path \<Rightarrow> (decimal_input option, unit UpdateOrderItem_ext item_input) UpdateOrder \<Rightarrow>
   (js_number option, unit UpdateOrderItem_ext item_data) UpdateOrder parse_result" where
  "UpdateOrderSchema lib ctx order =
     bind (updateOrderBaseSchema lib ctx order) (\<lambda>issues data.
       Inr (issues @
            refine (orderDiscountType data \<noteq> Value PERCENTAGE \<or>
                    orderDiscountValue data = None \<or>
                    (case orderDiscountValue data of
                       None \<Rightarrow> False
                     | Some v \<Rightarrow> js_le v (Finite 100)))
              ''Diskon persentase tidak boleh melebihi 100%'' [Key ''orderDiscountValue''] ctx @
            refine (let nonDeletedItems = filter (\<lambda>item. isDeleted item \<noteq> Some True) (items data);
                        productIds = map productId nonDeletedItems
                    in length (remdups productIds) = length productIds)
              ''Produk tidak boleh duplikat dalam satu order'' [Key ''items''] ctx,
            data))"

section \<open>Status changes\<close>

text \<open>
  The request \<^verbatim>\<open>UpdateOrderStatusSchema\<close> validates (\<^verbatim>\<open>id\<close> is \<open>request_id\<close> and \<^verbatim>\<open>notes\<close>
  is \<open>status_notes\<close> here), and the schema: its one refinement is the status transition.
\<close>

record UpdateOrderStatus =
  request_id :: string
  currentStatus :: OrderStatus
  newStatus :: OrderStatus
  rejectionReason :: "string nullish"
  deliveryDate :: "int nullish"
  userId :: string
  userName :: "string option"
  status_notes :: "string option"

definition UpdateOrderStatusSchema ::
  "library \<Rightarrow> path \<Rightarrow> UpdateOrderStatus \<Rightarrow> UpdateOrderStatus parse_result" where
  "UpdateOrderStatusSchema lib ctx request =
     (let issues =
            commonValidations_id lib (ctx @ [Key ''id'']) (request_id request) @
            check (uuid lib (userId request)) (Some ''ID user tidak valid'') (ctx @ [Key ''userId'']);
          data = request\<lparr>rejectionReason := trimmed (rejectionReason request),
                         status_notes := map_option trim (status_notes request)\<rparr>
      in case validateStatusTransition (OrderStatus_name (currentStatus data))
                (OrderStatus_name (newStatus data)) of
           Inl e \<Rightarrow> Inl e
         | Inr ok \<Rightarrow>
             Inr (issues @ refine ok ''Transisi status tidak valid'' [Key ''newStatus''] ctx, data))"

text \<open>A request is valid when the schema returns without a violation.\<close>

definition valid :: "'a parse_result \<Rightarrow> bool" where
  "valid r = (case r of Inl e \<Rightarrow> False | Inr (issues, data) \<Rightarrow> issues = [])"

text \<open>The violations a schema reported; none when the call threw.\<close>

definition violations :: "'a parse_result \<Rightarrow> issue list" where
  "violations r = (case r of Inl e \<Rightarrow> [] | Inr (issues, data) \<Rightarrow> issues)"

text \<open>
  When a schema returns at all: its decimal fields are numbers, or strings that
  \<^verbatim>\<open>parseFloat\<close> reads as a number. These predicates on the request say so.
\<close>

definition returns :: "'a parse_result \<Rightarrow> bool" where
  "returns r = (case r of Inl e \<Rightarrow> False | Inr v \<Rightarrow> True)"

definition numeric :: "library \<Rightarrow> decimal_input \<Rightarrow> bool" where
  "numeric lib d = (case d of Text s \<Rightarrow> parseFloat lib s \<noteq> None | Number n \<Rightarrow> True)"

definition item_numeric :: "library \<Rightarrow> 'z item_input \<Rightarrow> bool" where
  "item_numeric lib item =
     ((case customPrice item of Value d \<Rightarrow> numeric lib d | _ \<Rightarrow> True) \<and>
      (case itemDiscountValue item of Some d \<Rightarrow> numeric lib d | None \<Rightarrow> True))"

definition order_numeric ::
  "library \<Rightarrow> (decimal_input option, 'z item_input, 'y) order_fields_scheme \<Rightarrow> bool" where
  "order_numeric lib order =
     ((case orderDiscountValue order of Some d \<Rightarrow> numeric lib d | None \<Rightarrow> True) \<and>
      list_all (item_numeric lib) (items order))"


section \<open>A library instance for the examples\<close>

text \<open>
  The results below hold for every \<open>library\<close>. The worked examples need one to compute
  with: this one accepts the 8-4-4-4-12 hexadecimal shape as a uuid, reads a string of
  decimal digits as the number it denotes and any other string as \<^verbatim>\<open>NaN\<close> (as
  \<^verbatim>\<open>parseFloat\<close> does with a string that does not begin with a number), and prints an
  integer by its digits. On the requests of the examples it agrees with zod and the
  JavaScript runtime.
\<close>

definition is_hex_digit :: "char \<Rightarrow> bool" where
  "is_hex_digit c =
     (let n = (of_char c :: nat)
      in (48 \<le> n \<and> n \<le> 57) \<or> (65 \<le> n \<and> n \<le> 70) \<or> (97 \<le> n \<and> n \<le> 102))"

definition uuid_shape :: "string \<Rightarrow> bool" where
  "uuid_shape s =
     (length s = 36 \<and>
      list_all (\<lambda>(i, c). if List.member [8, 13, 18, 23 :: nat] i then c = CHR ''-'' else is_hex_digit c)
        (enumerate 0 s))"

definition example_library :: library where
  "example_library =
     \<lparr>uuid = uuid_shape,
      parseFloat = (\<lambda>s. if s \<noteq> [] \<and> list_all is_digit s
                         then Some (Finite (real (number_of_digits s))) else None),
      toString = (\<lambda>n. case n of
                         Finite x \<Rightarrow> (if x < 0 then ''-'' else []) @ String_nat (nat \<lfloor>\<bar>x\<bar>\<rfloor>)
                       | PosInfinity \<Rightarrow> ''Infinity''
                       | NegInfinity \<Rightarrow> ''-Infinity'')\<rparr>"


section \<open>Permissions: results\<close>

text \<open>
  An ownership-scoped permission is granted exactly to an active \<^verbatim>\<open>SALES\<close> user whose two
  ids are strictly equal, which includes the case where neither is supplied.
\<close>

lemma hasPermission_read_own:
  assumes "permission = ORDER_READ_OWN \<or> permission = VISIT_READ_OWN"
  shows "hasPermission role permission isActive actingUserId resourceOwnerId \<longleftrightarrow>
         isActive \<and> role = SALES \<and> actingUserId = resourceOwnerId"
  using assms by (cases role) (auto simp: hasPermission_def)

text \<open>
  Claim C1. On an ownership-scoped permission (\<^verbatim>\<open>order:read-own\<close>, \<^verbatim>\<open>visit:read-own\<close>) the
  check is meant to return true only when both the acting user id and the resource owner id
  are supplied and equal, and false when either is absent. The code compares the two with
  \<^verbatim>\<open>===\<close> and nothing else, so with both ids absent an active \<^verbatim>\<open>SALES\<close> user is granted
  the permission: this is the evaluation of \<^verbatim>\<open>hasPermission\<close> at that input.
\<close>

theorem hasPermission_read_own_without_ids:
  "hasPermission SALES ORDER_READ_OWN True None None \<and>
   hasPermission SALES VISIT_READ_OWN True None None"
  by (simp add: hasPermission_def)

text \<open>
  Claim C3. For every role, \<^verbatim>\<open>hasPermission\<close> with the baseline permission
  \<^verbatim>\<open>Permission.BASIC\<close> returns true whether or not the user is active; and for every other
  permission it returns false when the user is inactive, whatever the role.
\<close>

theorem hasPermission_baseline_and_inactive:
  "hasPermission role Permission.BASIC isActive actingUserId resourceOwnerId \<and>
   (permission \<noteq> Permission.BASIC \<longrightarrow>
      \<not> hasPermission role' permission False actingUserId' resourceOwnerId')"
  by (cases role) (simp_all add: hasPermission_def)

theorem hasPermission_baseline_and_inactive_witness:
  "hasPermission UserRole.BASIC Permission.BASIC False None None \<and>
   ORDER_APPROVE \<noteq> Permission.BASIC \<and>
   \<not> hasPermission ADMIN ORDER_APPROVE False (Some ''u1'') (Some ''u1'')"
  using hasPermission_baseline_and_inactive
    [of UserRole.BASIC False None None ORDER_APPROVE ADMIN "Some ''u1''" "Some ''u1''"]
  by simp

text \<open>
  Claim C5. \<^verbatim>\<open>BusinessRules.canEditOrder\<close> returns true if and only if the role is
  \<^verbatim>\<open>ADMIN\<close>, or the role is \<^verbatim>\<open>SALES\<close>, the order status is \<^verbatim>\<open>DRAFT\<close> and the acting user
  is the order's owner. So \<^verbatim>\<open>MANAGER\<close> and \<^verbatim>\<open>BASIC\<close> are always denied, and \<^verbatim>\<open>SALES\<close> is
  denied on an order that is not in \<^verbatim>\<open>DRAFT\<close>, such as one in \<^verbatim>\<open>DISETUJUI\<close>.
\<close>

theorem canEditOrder_iff:
  "(canEditOrder role orderStatus actingUserId orderOwnerId \<longleftrightarrow>
      role = ADMIN \<or> (role = SALES \<and> orderStatus = ''DRAFT'' \<and> actingUserId = orderOwnerId)) \<and>
   \<not> canEditOrder MANAGER orderStatus actingUserId orderOwnerId \<and>
   \<not> canEditOrder UserRole.BASIC orderStatus actingUserId orderOwnerId \<and>
   \<not> canEditOrder SALES ''DISETUJUI'' actingUserId orderOwnerId"
  by (simp add: canEditOrder_def)

text \<open>
  Claim C10. \<^verbatim>\<open>validateUserRole\<close> is defined on every string: it returns the input itself
  when that is exactly one of \<^verbatim>\<open>ADMIN\<close>, \<^verbatim>\<open>MANAGER\<close>, \<^verbatim>\<open>SALES\<close>, \<^verbatim>\<open>BASIC\<close>, and \<^verbatim>\<open>BASIC\<close>
  for every other string.
\<close>

theorem validateUserRole_least_privilege:
  "UserRole_name (validateUserRole role) =
     (if role = ''ADMIN'' \<or> role = ''MANAGER'' \<or> role = ''SALES'' \<or> role = ''BASIC''
      then role else ''BASIC'')"
  by (simp add: validateUserRole_def validRoles_def)

section \<open>Status transitions: results\<close>

text \<open>
  On every current status that is not the name of a property inherited from
  \<^verbatim>\<open>Object.prototype\<close>, \<^verbatim>\<open>validateStatusTransition\<close> returns, and returns true exactly on
  the five transitions of the table.
\<close>

lemma validateStatusTransition_table:
  assumes "fromStatus \<notin> set Object_prototype_keys"
  shows "validateStatusTransition fromStatus toStatus =
         Inr ((fromStatus, toStatus) \<in>
                {(''DRAFT'', ''DISETUJUI''), (''DRAFT'', ''TIDAK_TERKIRIM''),
                 (''DISETUJUI'', ''TERKIRIM''), (''DISETUJUI'', ''TIDAK_TERKIRIM''),
                 (''TIDAK_TERKIRIM'', ''DISETUJUI'')})"
  using assms
  by (auto simp: validateStatusTransition_def get_property_def statusTransitionMap_def)

lemma validateStatusTransition_OrderStatus:
  "validateStatusTransition (OrderStatus_name current) (OrderStatus_name new) =
     Inr ((current, new) \<in>
            {(DRAFT, DISETUJUI), (DRAFT, TIDAK_TERKIRIM), (DISETUJUI, TERKIRIM),
             (DISETUJUI, TIDAK_TERKIRIM), (TIDAK_TERKIRIM, DISETUJUI)})"
  by (cases current; cases new)
     (simp_all add: validateStatusTransition_def get_property_def statusTransitionMap_def)

text \<open>
  Claim C4. \<^verbatim>\<open>validateStatusTransition\<close> is meant to return true exactly on the five
  transitions of the table and false, never an error, on any current status outside the
  four defined ones. The current status \<^verbatim>\<open>"constructor"\<close> is outside the four, yet the
  property read finds the inherited \<^verbatim>\<open>Object.prototype.constructor\<close>, the \<^verbatim>\<open>?.\<close> does not
  short-circuit, and the call of the missing \<^verbatim>\<open>includes\<close> throws: this is the evaluation of
  the function at that input.
\<close>

theorem validateStatusTransition_inherited_key:
  "validateStatusTransition ''constructor'' ''DISETUJUI'' = Inl TypeError"
  by (simp add: validateStatusTransition_def get_property_def statusTransitionMap_def
      Object_prototype_keys_def)

section \<open>Order numbers: results\<close>

declare String_nat.simps [simp del]

lemma is_digit_digit_char: "d < 10 \<Longrightarrow> is_digit (digit_char d)"
  by (simp add: is_digit_def digit_char_def)

lemma digit_value_digit_char: "d < 10 \<Longrightarrow> digit_value (digit_char d) = d"
  by (simp add: digit_value_def digit_char_def)

lemma String_nat_all_digits: "list_all is_digit (String_nat n)"
proof (induction n rule: String_nat.induct)
  case (1 n)
  show ?case
  proof (cases "n < 10")
    case True
    then show ?thesis by (subst String_nat.simps) (simp add: is_digit_digit_char)
  next
    case False
    with 1 show ?thesis by (subst String_nat.simps) (simp add: is_digit_digit_char)
  qed
qed

lemma number_of_digits_snoc:
  "number_of_digits (s @ [c]) = 10 * number_of_digits s + digit_value c"
  by (simp add: number_of_digits_def)

text \<open>Reading the printed digits back gives the number: nothing is lost in printing.\<close>

lemma number_of_digits_String_nat: "number_of_digits (String_nat n) = n"
proof (induction n rule: String_nat.induct)
  case (1 n)
  show ?case
  proof (cases "n < 10")
    case True
    then show ?thesis
      by (subst String_nat.simps) (simp add: number_of_digits_def digit_value_digit_char)
  next
    case False
    with 1 show ?thesis
      by (subst String_nat.simps) (simp add: number_of_digits_snoc digit_value_digit_char)
  qed
qed

lemma length_String_nat_lt10: "n < 10 \<Longrightarrow> length (String_nat n) = 1"
  by (subst String_nat.simps) simp

lemma length_String_nat_lt100: "10 \<le> n \<Longrightarrow> n < 100 \<Longrightarrow> length (String_nat n) = 2"
  by (subst String_nat.simps) (simp add: length_String_nat_lt10)

lemma length_String_nat_lt1000: "100 \<le> n \<Longrightarrow> n < 1000 \<Longrightarrow> length (String_nat n) = 3"
  by (subst String_nat.simps) (simp add: length_String_nat_lt100)

lemma length_String_nat_lt10000: "1000 \<le> n \<Longrightarrow> n < 10000 \<Longrightarrow> length (String_nat n) = 4"
  by (subst String_nat.simps) (simp add: length_String_nat_lt1000)

lemma length_String_nat_ge1000: "1000 \<le> n \<Longrightarrow> 4 \<le> length (String_nat n)"
proof (induction n rule: String_nat.induct)
  case (1 n)
  show ?case
  proof (cases "n < 10000")
    case True
    with 1 show ?thesis by (simp add: length_String_nat_lt10000)
  next
    case False
    then have "1000 \<le> n div 10" by simp
    with 1 False have "4 \<le> length (String_nat (n div 10))" by simp
    with False show ?thesis by (subst String_nat.simps) simp
  qed
qed

lemma length_padStart: "length (padStart n c s) = max n (length s)"
  by (simp add: padStart_def)

lemma padStart_all_digits:
  "list_all is_digit s \<Longrightarrow> list_all is_digit (padStart n (CHR ''0'') s)"
proof -
  have "is_digit (CHR ''0'')" by (simp add: is_digit_def)
  then show "list_all is_digit s \<Longrightarrow> list_all is_digit (padStart n (CHR ''0'') s)"
    by (auto simp: padStart_def list_all_iff)
qed

lemma number_of_digits_zeros:
  "number_of_digits (replicate k (CHR ''0'') @ s) = number_of_digits s"
  by (induction k) (simp_all add: number_of_digits_def digit_value_def)

lemma number_of_digits_padStart:
  "number_of_digits (padStart n (CHR ''0'') s) = number_of_digits s"
  by (simp add: padStart_def number_of_digits_zeros)

lemma number_of_digits_append:
  "number_of_digits (a @ b) = number_of_digits a * 10 ^ length b + number_of_digits b"
proof (induction b rule: rev_induct)
  case Nil
  then show ?case by (simp add: number_of_digits_def)
next
  case (snoc c b)
  have "number_of_digits (a @ b @ [c]) = 10 * number_of_digits (a @ b) + digit_value c"
    using number_of_digits_snoc [of "a @ b" c] by simp
  with snoc show ?case by (simp add: number_of_digits_snoc algebra_simps)
qed

lemma two_digit_field:
  assumes "0 \<le> i" "i < 100"
  shows "length (padStart 2 (CHR ''0'') (String_int i)) = 2"
    and "list_all is_digit (padStart 2 (CHR ''0'') (String_int i))"
    and "int (number_of_digits (padStart 2 (CHR ''0'') (String_int i))) = i"
proof -
  have s: "String_int i = String_nat (nat i)" using assms by (simp add: String_int_def)
  show "length (padStart 2 (CHR ''0'') (String_int i)) = 2"
  proof (cases "nat i < 10")
    case True
    then show ?thesis by (simp add: s length_padStart length_String_nat_lt10)
  next
    case False
    with assms show ?thesis by (simp add: s length_padStart length_String_nat_lt100)
  qed
  show "list_all is_digit (padStart 2 (CHR ''0'') (String_int i))"
    by (simp add: s padStart_all_digits String_nat_all_digits)
  show "int (number_of_digits (padStart 2 (CHR ''0'') (String_int i))) = i"
    using assms by (simp add: s number_of_digits_padStart number_of_digits_String_nat)
qed

lemma three_digit_field:
  assumes "0 \<le> i" "i < 1000"
  shows "length (padStart 3 (CHR ''0'') (String_int i)) = 3"
    and "list_all is_digit (padStart 3 (CHR ''0'') (String_int i))"
    and "int (number_of_digits (padStart 3 (CHR ''0'') (String_int i))) = i"
proof -
  have s: "String_int i = String_nat (nat i)" using assms by (simp add: String_int_def)
  consider "nat i < 10" | "10 \<le> nat i" "nat i < 100" | "100 \<le> nat i" "nat i < 1000"
    using assms by linarith
  then show "length (padStart 3 (CHR ''0'') (String_int i)) = 3"
    by cases (simp_all add: s length_padStart length_String_nat_lt10 length_String_nat_lt100
        length_String_nat_lt1000)
  show "list_all is_digit (padStart 3 (CHR ''0'') (String_int i))"
    by (simp add: s padStart_all_digits String_nat_all_digits)
  show "int (number_of_digits (padStart 3 (CHR ''0'') (String_int i))) = i"
    using assms by (simp add: s number_of_digits_padStart number_of_digits_String_nat)
qed

lemma year_field:
  assumes "1000 \<le> i" "i \<le> 9999"
  shows "length (String_int i) = 4"
    and "list_all is_digit (String_int i)"
    and "int (number_of_digits (String_int i)) = i"
proof -
  have s: "String_int i = String_nat (nat i)" using assms by (simp add: String_int_def)
  show "length (String_int i) = 4" using assms by (simp add: s length_String_nat_lt10000)
  show "list_all is_digit (String_int i)" by (simp add: s String_nat_all_digits)
  show "int (number_of_digits (String_int i)) = i"
    using assms by (simp add: s number_of_digits_String_nat)
qed

lemma PO_shape:
  assumes "length y = 4" "length m = 2" "length d = 2" "length q = 3"
    and "list_all is_digit y" "list_all is_digit m" "list_all is_digit d" "list_all is_digit q"
  shows "matches_PO_format (''PO-'' @ (y @ m @ d) @ ''-'' @ q)"
    and "date_digits (''PO-'' @ (y @ m @ d) @ ''-'' @ q) = y @ m @ d"
    and "sequence_digits (''PO-'' @ (y @ m @ d) @ ''-'' @ q) = q"
  using assms by (simp_all add: matches_PO_format_def date_digits_def sequence_digits_def nth_append)

text \<open>
  A sequence number of 1000 or more is printed in full: the order number is then longer
  than the fifteen characters of \<^verbatim>\<open>PO-YYYYMMDD-NNN\<close>.
\<close>

lemma generateOrderNumber_long_sequence:
  assumes "1000 \<le> sequence"
    and "1000 \<le> getFullYear now" "getFullYear now \<le> 9999"
    and "0 \<le> getMonth now" "getMonth now \<le> 11"
    and "1 \<le> getDate now" "getDate now \<le> 31"
  shows "16 \<le> length (generateOrderNumber now sequence)"
    and "\<not> matches_PO_format (generateOrderNumber now sequence)"
proof -
  have "String_int sequence = String_nat (nat sequence)"
    using assms by (simp add: String_int_def)
  moreover have "4 \<le> length (String_nat (nat sequence))"
    using assms by (simp add: length_String_nat_ge1000)
  ultimately have "4 \<le> length (padStart 3 (CHR ''0'') (String_int sequence))"
    by (simp add: length_padStart)
  then show l: "16 \<le> length (generateOrderNumber now sequence)"
    using assms by (simp add: generateOrderNumber_def Let_def year_field two_digit_field)
  then show "\<not> matches_PO_format (generateOrderNumber now sequence)"
    by (simp add: matches_PO_format_def)
qed

text \<open>
  Claim C9, as the code has it. For every sequence number from 1 to 999, and a current date
  with a four-digit year, \<^verbatim>\<open>generateOrderNumber\<close> returns a string of the format
  \<^verbatim>\<open>PO-YYYYMMDD-NNN\<close>: \<^verbatim>\<open>PO-\<close>, eight digits that read as year, month (counted from 1) and
  day, a hyphen, and three digits that read as the sequence number.
\<close>

theorem generateOrderNumber_format:
  assumes "0 < sequence" "sequence < 1000"
    and "1000 \<le> getFullYear now" "getFullYear now \<le> 9999"
    and "0 \<le> getMonth now" "getMonth now \<le> 11"
    and "1 \<le> getDate now" "getDate now \<le> 31"
  shows "matches_PO_format (generateOrderNumber now sequence) \<and>
         int (number_of_digits (sequence_digits (generateOrderNumber now sequence))) = sequence \<and>
         int (number_of_digits (date_digits (generateOrderNumber now sequence))) =
           getFullYear now * 10000 + (getMonth now + 1) * 100 + getDate now"
proof -
  define y where "y = String_int (getFullYear now)"
  define m where "m = padStart 2 (CHR ''0'') (String_int (getMonth now + 1))"
  define d where "d = padStart 2 (CHR ''0'') (String_int (getDate now))"
  define q where "q = padStart 3 (CHR ''0'') (String_int sequence)"
  have g: "generateOrderNumber now sequence = ''PO-'' @ (y @ m @ d) @ ''-'' @ q"
    by (simp add: generateOrderNumber_def Let_def y_def m_def d_def q_def)
  have y: "length y = 4" "list_all is_digit y" "int (number_of_digits y) = getFullYear now"
    unfolding y_def using assms by (simp_all add: year_field)
  have m: "length m = 2" "list_all is_digit m" "int (number_of_digits m) = getMonth now + 1"
    unfolding m_def using assms by (simp_all add: two_digit_field)
  have d: "length d = 2" "list_all is_digit d" "int (number_of_digits d) = getDate now"
    unfolding d_def using assms by (simp_all add: two_digit_field)
  have q: "length q = 3" "list_all is_digit q" "int (number_of_digits q) = sequence"
    unfolding q_def using assms by (simp_all add: three_digit_field)
  have "int (number_of_digits (y @ m @ d)) =
          int (number_of_digits y) * 10000 + int (number_of_digits m) * 100 + int (number_of_digits d)"
    by (simp add: number_of_digits_append y m d)
  then have dd: "int (number_of_digits (y @ m @ d)) =
      getFullYear now * 10000 + (getMonth now + 1) * 100 + getDate now"
    by (simp only: y m d)
  show ?thesis
    unfolding g using PO_shape [of y m d q] y m d q dd by simp
qed

theorem generateOrderNumber_format_witness:
  "(0::int) < 7 \<and> (7::int) < 1000 \<and>
   generateOrderNumber \<lparr>getFullYear = 2024, getMonth = 11, getDate = 25\<rparr> 7 = ''PO-20241225-007'' \<and>
   matches_PO_format (generateOrderNumber \<lparr>getFullYear = 2024, getMonth = 11, getDate = 25\<rparr> 7) \<and>
   int (number_of_digits (sequence_digits
     (generateOrderNumber \<lparr>getFullYear = 2024, getMonth = 11, getDate = 25\<rparr> 7))) = 7 \<and>
   int (number_of_digits (date_digits
     (generateOrderNumber \<lparr>getFullYear = 2024, getMonth = 11, getDate = 25\<rparr> 7))) = 20241225"
proof -
  have "generateOrderNumber \<lparr>getFullYear = 2024, getMonth = 11, getDate = 25\<rparr> 7 = ''PO-20241225-007''"
    by code_simp
  then show ?thesis
    using generateOrderNumber_format [of 7 "\<lparr>getFullYear = 2024, getMonth = 11, getDate = 25\<rparr>"]
    by simp
qed

text \<open>
  Claim C9, as stated: every positive sequence number gives a sequence part of exactly
  three digits. The sequence number 1000 gives four.
\<close>

theorem generateOrderNumber_sequence_1000:
  "generateOrderNumber \<lparr>getFullYear = 2025, getMonth = 0, getDate = 1\<rparr> 1000 = ''PO-20250101-1000'' \<and>
   \<not> matches_PO_format (generateOrderNumber \<lparr>getFullYear = 2025, getMonth = 0, getDate = 1\<rparr> 1000)"
  by code_simp

section \<open>Validation schemas: how results are put together\<close>

lemma bind_Inr_iff:
  "bind r f = Inr z \<longleftrightarrow> (\<exists>issues v. r = Inr (issues, v) \<and> f issues v = Inr z)"
  by (auto simp: bind_def split: sum.splits)

lemma refine_member:
  "(p, m) \<in> set (refine ok message path ctx) \<longleftrightarrow> \<not> ok \<and> p = ctx @ path \<and> m = Some message"
  by (auto simp: refine_def)

lemma check_member:
  "(p, m) \<in> set (check ok message ctx) \<longleftrightarrow> \<not> ok \<and> p = ctx \<and> m = message"
  by (auto simp: check_def)

text \<open>A reported violation means the request is not valid.\<close>

lemma violation_not_valid:
  "r = Inr (issues, data) \<Longrightarrow> x \<in> set issues \<Longrightarrow> \<not> valid r"
  by (auto simp: valid_def)

subsection \<open>Decimal fields\<close>

lemma decimalSchema_issue:
  assumes "decimalSchema lib maxDigits decimalPlaces (Some msg) ctx d = Inr (issues, v)"
    and "(p, m) \<in> set issues"
  shows "p = ctx \<and> (m = Some (if msg = [] then ''Nilai harus non-negatif'' else msg) \<or>
           (\<exists>rest. m = Some (''Nilai melebihi '' @ rest)))"
  using assms
  by (auto simp: decimalSchema_def refine_member split: sum.splits decimal_input.splits option.splits)

lemma decimal_nullish_issue:
  assumes "decimal_nullish lib maxDigits decimalPlaces (Some msg) ctx d = Inr (issues, v)"
    and "(p, m) \<in> set issues"
  shows "p = ctx \<and> (m = Some (if msg = [] then ''Nilai harus non-negatif'' else msg) \<or>
           (\<exists>rest. m = Some (''Nilai melebihi '' @ rest)))"
  using assms decimalSchema_issue [of lib maxDigits decimalPlaces msg ctx _ issues _ p m]
  by (auto simp: decimal_nullish_def bind_Inr_iff split: nullish.splits)

lemma decimal_default_issue:
  assumes "decimal_default lib maxDigits decimalPlaces (Some msg) dflt ctx d = Inr (issues, v)"
    and "(p, m) \<in> set issues"
  shows "p = ctx \<and> (m = Some (if msg = [] then ''Nilai harus non-negatif'' else msg) \<or>
           (\<exists>rest. m = Some (''Nilai melebihi '' @ rest)))"
  using assms decimalSchema_issue [of lib maxDigits decimalPlaces msg ctx _ issues _ p m]
  by (auto simp: decimal_default_def split: option.splits)

lemma decimal_optional_issue:
  assumes "decimal_optional lib maxDigits decimalPlaces (Some msg) ctx d = Inr (issues, v)"
    and "(p, m) \<in> set issues"
  shows "p = ctx \<and> (m = Some (if msg = [] then ''Nilai harus non-negatif'' else msg) \<or>
           (\<exists>rest. m = Some (''Nilai melebihi '' @ rest)))"
  using assms decimalSchema_issue [of lib maxDigits decimalPlaces msg ctx _ issues _ p m]
  by (auto simp: decimal_optional_def bind_Inr_iff split: option.splits)

text \<open>A decimal given as a number is parsed to that number, and never throws.\<close>

lemma decimalSchema_Number:
  "\<exists>issues. decimalSchema lib maxDigits decimalPlaces message ctx (Number n) = Inr (issues, n)"
  by (simp add: decimalSchema_def)

subsection \<open>Trimming\<close>

lemma dropWhile_trim_front: "dropWhile is_white_space (trim s) = trim s"
proof -
  define u where "u = dropWhile is_white_space s"
  have split: "u = trim s @ rev (takeWhile is_white_space (rev u))"
  proof -
    have "u = rev (takeWhile is_white_space (rev u) @ dropWhile is_white_space (rev u))"
      by simp
    also have "\<dots> = rev (dropWhile is_white_space (rev u)) @ rev (takeWhile is_white_space (rev u))"
      by (rule rev_append)
    finally show ?thesis by (simp add: trim_def u_def)
  qed
  show ?thesis
  proof (cases "trim s")
    case Nil
    then show ?thesis by simp
  next
    case (Cons c cs)
    with split obtain w where "u = c # w" by simp
    then have "u \<noteq> []" and "hd u = c" by simp_all
    then have "\<not> is_white_space c" unfolding u_def using hd_dropWhile by blast
    with Cons show ?thesis by simp
  qed
qed

lemma trim_idem: "trim (trim s) = trim s"
proof -
  have "dropWhile is_white_space (rev (trim s)) = rev (trim s)"
    by (simp add: trim_def)
  then show ?thesis
    using dropWhile_trim_front [of s] by (simp add: trim_def [of "trim s"])
qed

subsection \<open>Order items\<close>

lemma createOrderItemBaseSchema_data:
  assumes "createOrderItemBaseSchema lib ctx item = Inr (issues, data)"
  shows "productId data = productId item"
    and "priceType data = (case priceType item of None \<Rightarrow> MODERN | Some t \<Rightarrow> t)"
    and "customPriceReason data = trimmed (customPriceReason item)"
    and "itemDiscountType data = itemDiscountType item"
    and "CreateOrderItem.more data = CreateOrderItem.more item"
  using assms by (auto simp: createOrderItemBaseSchema_def bind_Inr_iff)

lemma createOrderItemBaseSchema_issue:
  assumes "createOrderItemBaseSchema lib ctx item = Inr (issues, data)"
    and "(p, m) \<in> set issues"
  shows "(p = ctx @ [Key ''productId''] \<and> m = Some ''ID harus berformat UUID yang valid'') \<or>
         (p = ctx @ [Key ''quantity''] \<and>
            (m = None \<or> m = Some ''Jumlah harus bilangan bulat positif'')) \<or>
         (p = ctx @ [Key ''customPrice''] \<and>
            (m = Some ''Harga kustom harus valid'' \<or> (\<exists>rest. m = Some (''Nilai melebihi '' @ rest)))) \<or>
         (p = ctx @ [Key ''itemDiscountValue''] \<and>
            (m = Some ''Nilai diskon harus valid'' \<or> (\<exists>rest. m = Some (''Nilai melebihi '' @ rest))))"
proof -
  from assms(1) obtain i1 v1 i2 v2 where
    c: "decimal_nullish lib 8 2 (Some ''Harga kustom harus valid'') (ctx @ [Key ''customPrice''])
          (customPrice item) = Inr (i1, v1)"
    and d: "decimal_default lib 10 2 (Some ''Nilai diskon harus valid'') (Finite 0)
          (ctx @ [Key ''itemDiscountValue'']) (itemDiscountValue item) = Inr (i2, v2)"
    and i: "issues = commonValidations_id lib (ctx @ [Key ''productId'']) (productId item) @
          check (isInteger (quantity item)) None (ctx @ [Key ''quantity'']) @
          check (js_less (Finite 0) (quantity item)) (Some ''Jumlah harus bilangan bulat positif'')
            (ctx @ [Key ''quantity'']) @ i1 @ i2"
    by (auto simp: createOrderItemBaseSchema_def bind_Inr_iff)
  from assms(2) i consider
      "(p, m) \<in> set (commonValidations_id lib (ctx @ [Key ''productId'']) (productId item))"
    | "(p, m) \<in> set (check (isInteger (quantity item)) None (ctx @ [Key ''quantity'']))"
    | "(p, m) \<in> set (check (js_less (Finite 0) (quantity item))
          (Some ''Jumlah harus bilangan bulat positif'') (ctx @ [Key ''quantity'']))"
    | "(p, m) \<in> set i1" | "(p, m) \<in> set i2"
    by auto
  then show ?thesis
  proof cases
    case 1 then show ?thesis by (simp add: commonValidations_id_def check_member)
  next
    case 2 then show ?thesis by (simp add: check_member)
  next
    case 3 then show ?thesis by (simp add: check_member)
  next
    case 4 with decimal_nullish_issue [OF c] show ?thesis by simp
  next
    case 5 with decimal_default_issue [OF d] show ?thesis by simp
  qed
qed

text \<open>
  What the refinements need of the base violations: each lies on a field of the item, and
  none carries a refinement's message.
\<close>

lemma createOrderItemBaseSchema_issue_field:
  assumes "createOrderItemBaseSchema lib ctx item = Inr (issues, data)"
    and "(p, m) \<in> set issues"
  shows "\<exists>k. p = ctx @ [Key k]"
    and "m \<noteq> Some ''Harga kustom wajib diisi jika tipe harga adalah CUSTOM''"
    and "m \<noteq> Some ''Alasan harga kustom wajib diisi jika tipe harga adalah CUSTOM''"
    and "m \<noteq> Some ''Diskon persentase tidak boleh melebihi 100%''"
  using createOrderItemBaseSchema_issue [OF assms] by auto

lemma updateOrderItemBaseSchema_Inr:
  assumes "updateOrderItemBaseSchema lib ctx item = Inr (issues, data)"
  obtains base where "createOrderItemBaseSchema lib ctx item = Inr (base, data)"
    and "issues = base @ (case item_id item of None \<Rightarrow> []
                          | Some s \<Rightarrow> check (uuid lib s) None (ctx @ [Key ''id'']))"
  using assms by (auto simp: updateOrderItemBaseSchema_def bind_Inr_iff)

lemma updateOrderItemBaseSchema_issue_field:
  assumes "updateOrderItemBaseSchema lib ctx item = Inr (issues, data)"
    and "(p, m) \<in> set issues"
  shows "\<exists>k. p = ctx @ [Key k]"
    and "m \<noteq> Some ''Harga kustom wajib diisi jika tipe harga adalah CUSTOM''"
    and "m \<noteq> Some ''Alasan harga kustom wajib diisi jika tipe harga adalah CUSTOM''"
    and "m \<noteq> Some ''Diskon persentase tidak boleh melebihi 100%''"
proof -
  from assms(1) obtain base where b: "createOrderItemBaseSchema lib ctx item = Inr (base, data)"
    and i: "issues = base @ (case item_id item of None \<Rightarrow> []
                             | Some s \<Rightarrow> check (uuid lib s) None (ctx @ [Key ''id'']))"
    by (rule updateOrderItemBaseSchema_Inr)
  from assms(2) i consider "(p, m) \<in> set base" | "p = ctx @ [Key ''id'']" "m = None"
    by (auto simp: check_member split: option.splits)
  then have "(\<exists>k. p = ctx @ [Key k]) \<and>
      m \<noteq> Some ''Harga kustom wajib diisi jika tipe harga adalah CUSTOM'' \<and>
      m \<noteq> Some ''Alasan harga kustom wajib diisi jika tipe harga adalah CUSTOM'' \<and>
      m \<noteq> Some ''Diskon persentase tidak boleh melebihi 100%''"
  proof cases
    case 1
    with createOrderItemBaseSchema_issue_field [OF b] show ?thesis by blast
  next
    case 2
    then show ?thesis by simp
  qed
  then show "\<exists>k. p = ctx @ [Key k]"
    and "m \<noteq> Some ''Harga kustom wajib diisi jika tipe harga adalah CUSTOM''"
    and "m \<noteq> Some ''Alasan harga kustom wajib diisi jika tipe harga adalah CUSTOM''"
    and "m \<noteq> Some ''Diskon persentase tidak boleh melebihi 100%''"
    by blast+
qed

text \<open>
  The three refinements of an item schema, over any base violations that carry none of
  their messages: each message is reported exactly when its check fails.
\<close>

lemma item_refinements_member:
  fixes base :: "issue list"
  assumes "\<forall>p m. (p, m) \<in> set base \<longrightarrow>
             m \<noteq> Some ''Harga kustom wajib diisi jika tipe harga adalah CUSTOM'' \<and>
             m \<noteq> Some ''Alasan harga kustom wajib diisi jika tipe harga adalah CUSTOM'' \<and>
             m \<noteq> Some ''Diskon persentase tidak boleh melebihi 100%''"
    and "issues = base @
           refine a ''Harga kustom wajib diisi jika tipe harga adalah CUSTOM'' [Key ''customPrice''] ctx @
           refine b ''Alasan harga kustom wajib diisi jika tipe harga adalah CUSTOM''
             [Key ''customPriceReason''] ctx @
           refine c ''Diskon persentase tidak boleh melebihi 100%'' [Key ''itemDiscountValue''] ctx"
  shows "(ctx @ [Key ''customPrice''],
           Some ''Harga kustom wajib diisi jika tipe harga adalah CUSTOM'') \<in> set issues \<longleftrightarrow> \<not> a"
    and "(ctx @ [Key ''customPriceReason''],
           Some ''Alasan harga kustom wajib diisi jika tipe harga adalah CUSTOM'') \<in> set issues \<longleftrightarrow> \<not> b"
    and "(ctx @ [Key ''itemDiscountValue''],
           Some ''Diskon persentase tidak boleh melebihi 100%'') \<in> set issues \<longleftrightarrow> \<not> c"
proof -
  have n1: "(q, Some ''Harga kustom wajib diisi jika tipe harga adalah CUSTOM'') \<notin> set base" for q
    using assms(1) by blast
  have n2: "(q, Some ''Alasan harga kustom wajib diisi jika tipe harga adalah CUSTOM'') \<notin> set base" for q
    using assms(1) by blast
  have n3: "(q, Some ''Diskon persentase tidak boleh melebihi 100%'') \<notin> set base" for q
    using assms(1) by blast
  show "(ctx @ [Key ''customPrice''],
           Some ''Harga kustom wajib diisi jika tipe harga adalah CUSTOM'') \<in> set issues \<longleftrightarrow> \<not> a"
    unfolding assms(2) by (simp add: refine_member n1)
  show "(ctx @ [Key ''customPriceReason''],
           Some ''Alasan harga kustom wajib diisi jika tipe harga adalah CUSTOM'') \<in> set issues \<longleftrightarrow> \<not> b"
    unfolding assms(2) by (simp add: refine_member n2)
  show "(ctx @ [Key ''itemDiscountValue''],
           Some ''Diskon persentase tidak boleh melebihi 100%'') \<in> set issues \<longleftrightarrow> \<not> c"
    unfolding assms(2) by (simp add: refine_member n3)
qed

lemma item_refinements_field:
  fixes base :: "issue list"
  assumes "\<forall>p m. (p, m) \<in> set base \<longrightarrow> (\<exists>k. p = ctx @ [Key k])"
    and "issues = base @ refine a ma [Key ka] ctx @ refine b mb [Key kb] ctx @ refine c mc [Key kc] ctx"
    and "(p, m) \<in> set issues"
  shows "\<exists>k. p = ctx @ [Key k]"
  using assms by (auto simp: refine_member)

text \<open>The custom-price conditions of the refinements, in terms of the request.\<close>

lemma price_condition:
  "(case cp of Undefined \<Rightarrow> False | Null \<Rightarrow> False | Value price \<Rightarrow> js_less (Finite 0) price) \<longleftrightarrow>
   (\<exists>price. cp = Value price \<and> js_less (Finite 0) price)"
  by (cases cp) auto

lemma reason_condition:
  "(case trimmed r of Undefined \<Rightarrow> False | Null \<Rightarrow> False | Value reason \<Rightarrow> trim reason \<noteq> []) \<longleftrightarrow>
   (\<exists>reason. r = Value reason \<and> trim reason \<noteq> [])"
  by (cases r) (auto simp: trim_idem)

lemma default_price_type:
  "(case pt of None \<Rightarrow> MODERN | Some t \<Rightarrow> t) = CUSTOM \<longleftrightarrow> pt = Some CUSTOM"
  by (cases pt) auto

lemma CreateOrderItemSchema_Inr:
  assumes "CreateOrderItemSchema lib ctx item = Inr (issues, data)"
  obtains base where "createOrderItemBaseSchema lib ctx item = Inr (base, data)"
    and "issues = base @
            refine (priceType data \<noteq> CUSTOM \<or>
                    (case customPrice data of
                       Undefined \<Rightarrow> False | Null \<Rightarrow> False
                     | Value price \<Rightarrow> js_less (Finite 0) price))
              ''Harga kustom wajib diisi jika tipe harga adalah CUSTOM'' [Key ''customPrice''] ctx @
            refine (priceType data \<noteq> CUSTOM \<or>
                    (case customPriceReason data of
                       Undefined \<Rightarrow> False | Null \<Rightarrow> False
                     | Value reason \<Rightarrow> trim reason \<noteq> []))
              ''Alasan harga kustom wajib diisi jika tipe harga adalah CUSTOM''
              [Key ''customPriceReason''] ctx @
            refine (itemDiscountType data \<noteq> Value PERCENTAGE \<or>
                    js_le (itemDiscountValue data) (Finite 100))
              ''Diskon persentase tidak boleh melebihi 100%'' [Key ''itemDiscountValue''] ctx"
  using assms by (auto simp: CreateOrderItemSchema_def bind_Inr_iff)

lemma UpdateOrderItemSchema_Inr:
  assumes "UpdateOrderItemSchema lib ctx item = Inr (issues, data)"
  obtains base where "updateOrderItemBaseSchema lib ctx item = Inr (base, data)"
    and "issues = base @
            refine (priceType data \<noteq> CUSTOM \<or>
                    (case customPrice data of
                       Undefined \<Rightarrow> False | Null \<Rightarrow> False
                     | Value price \<Rightarrow> js_less (Finite 0) price))
              ''Harga kustom wajib diisi jika tipe harga adalah CUSTOM'' [Key ''customPrice''] ctx @
            refine (priceType data \<noteq> CUSTOM \<or>
                    (case customPriceReason data of
                       Undefined \<Rightarrow> False | Null \<Rightarrow> False
                     | Value reason \<Rightarrow> trim reason \<noteq> []))
              ''Alasan harga kustom wajib diisi jika tipe harga adalah CUSTOM''
              [Key ''customPriceReason''] ctx @
            refine (itemDiscountType data \<noteq> Value PERCENTAGE \<or>
                    js_le (itemDiscountValue data) (Finite 100))
              ''Diskon persentase tidak boleh melebihi 100%'' [Key ''itemDiscountValue''] ctx"
  using assms by (auto simp: UpdateOrderItemSchema_def bind_Inr_iff)

lemma CreateOrderItemSchema_violations:
  assumes "CreateOrderItemSchema lib ctx item = Inr (issues, data)"
  shows "(ctx @ [Key ''customPrice''],
           Some ''Harga kustom wajib diisi jika tipe harga adalah CUSTOM'') \<in> set issues \<longleftrightarrow>
         priceType item = Some CUSTOM \<and>
         \<not> (\<exists>price. customPrice data = Value price \<and> js_less (Finite 0) price)"
    and "(ctx @ [Key ''customPriceReason''],
           Some ''Alasan harga kustom wajib diisi jika tipe harga adalah CUSTOM'') \<in> set issues \<longleftrightarrow>
         priceType item = Some CUSTOM \<and>
         \<not> (\<exists>reason. customPriceReason item = Value reason \<and> trim reason \<noteq> [])"
    and "(ctx @ [Key ''itemDiscountValue''],
           Some ''Diskon persentase tidak boleh melebihi 100%'') \<in> set issues \<longleftrightarrow>
         itemDiscountType data = Value PERCENTAGE \<and> js_less (Finite 100) (itemDiscountValue data)"
    and "productId data = productId item"
    and "(p, m) \<in> set issues \<Longrightarrow> \<exists>k. p = ctx @ [Key k]"
    and "itemDiscountType data = itemDiscountType item"
proof -
  from assms obtain base where b: "createOrderItemBaseSchema lib ctx item = Inr (base, data)"
    and i: "issues = base @
            refine (priceType data \<noteq> CUSTOM \<or>
                    (case customPrice data of
                       Undefined \<Rightarrow> False | Null \<Rightarrow> False
                     | Value price \<Rightarrow> js_less (Finite 0) price))
              ''Harga kustom wajib diisi jika tipe harga adalah CUSTOM'' [Key ''customPrice''] ctx @
            refine (priceType data \<noteq> CUSTOM \<or>
                    (case customPriceReason data of
                       Undefined \<Rightarrow> False | Null \<Rightarrow> False
                     | Value reason \<Rightarrow> trim reason \<noteq> []))
              ''Alasan harga kustom wajib diisi jika tipe harga adalah CUSTOM''
              [Key ''customPriceReason''] ctx @
            refine (itemDiscountType data \<noteq> Value PERCENTAGE \<or>
                    js_le (itemDiscountValue data) (Finite 100))
              ''Diskon persentase tidak boleh melebihi 100%'' [Key ''itemDiscountValue''] ctx"
    by (rule CreateOrderItemSchema_Inr)
  note d = createOrderItemBaseSchema_data [OF b]
  note f = createOrderItemBaseSchema_issue_field [OF b]
  have nb: "\<forall>p m. (p, m) \<in> set base \<longrightarrow>
             m \<noteq> Some ''Harga kustom wajib diisi jika tipe harga adalah CUSTOM'' \<and>
             m \<noteq> Some ''Alasan harga kustom wajib diisi jika tipe harga adalah CUSTOM'' \<and>
             m \<noteq> Some ''Diskon persentase tidak boleh melebihi 100%''"
    using f(2-4) by blast
  note r = item_refinements_member [OF nb i]
  show "(ctx @ [Key ''customPrice''],
           Some ''Harga kustom wajib diisi jika tipe harga adalah CUSTOM'') \<in> set issues \<longleftrightarrow>
         priceType item = Some CUSTOM \<and>
         \<not> (\<exists>price. customPrice data = Value price \<and> js_less (Finite 0) price)"
    unfolding r(1) price_condition d(2) default_price_type by blast
  show "(ctx @ [Key ''customPriceReason''],
           Some ''Alasan harga kustom wajib diisi jika tipe harga adalah CUSTOM'') \<in> set issues \<longleftrightarrow>
         priceType item = Some CUSTOM \<and>
         \<not> (\<exists>reason. customPriceReason item = Value reason \<and> trim reason \<noteq> [])"
    unfolding r(2) d(3) reason_condition d(2) default_price_type by blast
  show "(ctx @ [Key ''itemDiscountValue''],
           Some ''Diskon persentase tidak boleh melebihi 100%'') \<in> set issues \<longleftrightarrow>
         itemDiscountType data = Value PERCENTAGE \<and> js_less (Finite 100) (itemDiscountValue data)"
    unfolding r(3) by (simp add: js_less_def)
  show "productId data = productId item" by (rule d(1))
  have fb: "\<forall>p m. (p, m) \<in> set base \<longrightarrow> (\<exists>k. p = ctx @ [Key k])"
    using f(1) by blast
  show "(p, m) \<in> set issues \<Longrightarrow> \<exists>k. p = ctx @ [Key k]"
    using item_refinements_field [OF fb i] by blast
  show "itemDiscountType data = itemDiscountType item" by (rule d(4))
qed

lemma UpdateOrderItemSchema_violations:
  assumes "UpdateOrderItemSchema lib ctx item = Inr (issues, data)"
  shows "(ctx @ [Key ''customPrice''],
           Some ''Harga kustom wajib diisi jika tipe harga adalah CUSTOM'') \<in> set issues \<longleftrightarrow>
         priceType item = Some CUSTOM \<and>
         \<not> (\<exists>price. customPrice data = Value price \<and> js_less (Finite 0) price)"
    and "(ctx @ [Key ''customPriceReason''],
           Some ''Alasan harga kustom wajib diisi jika tipe harga adalah CUSTOM'') \<in> set issues \<longleftrightarrow>
         priceType item = Some CUSTOM \<and>
         \<not> (\<exists>reason. customPriceReason item = Value reason \<and> trim reason \<noteq> [])"
    and "(ctx @ [Key ''itemDiscountValue''],
           Some ''Diskon persentase tidak boleh melebihi 100%'') \<in> set issues \<longleftrightarrow>
         itemDiscountType data = Value PERCENTAGE \<and> js_less (Finite 100) (itemDiscountValue data)"
    and "productId data = productId item"
    and "isDeleted data = isDeleted item"
    and "(p, m) \<in> set issues \<Longrightarrow> \<exists>k. p = ctx @ [Key k]"
    and "itemDiscountType data = itemDiscountType item"
proof -
  from assms obtain ubase where u: "updateOrderItemBaseSchema lib ctx item = Inr (ubase, data)"
    and i: "issues = ubase @
            refine (priceType data \<noteq> CUSTOM \<or>
                    (case customPrice data of
                       Undefined \<Rightarrow> False | Null \<Rightarrow> False
                     | Value price \<Rightarrow> js_less (Finite 0) price))
              ''Harga kustom wajib diisi jika tipe harga adalah CUSTOM'' [Key ''customPrice''] ctx @
            refine (priceType data \<noteq> CUSTOM \<or>
                    (case customPriceReason data of
                       Undefined \<Rightarrow> False | Null \<Rightarrow> False
                     | Value reason \<Rightarrow> trim reason \<noteq> []))
              ''Alasan harga kustom wajib diisi jika tipe harga adalah CUSTOM''
              [Key ''customPriceReason''] ctx @
            refine (itemDiscountType data \<noteq> Value PERCENTAGE \<or>
                    js_le (itemDiscountValue data) (Finite 100))
              ''Diskon persentase tidak boleh melebihi 100%'' [Key ''itemDiscountValue''] ctx"
    by (rule UpdateOrderItemSchema_Inr)
  from u obtain base where b: "createOrderItemBaseSchema lib ctx item = Inr (base, data)"
    by (rule updateOrderItemBaseSchema_Inr)
  note d = createOrderItemBaseSchema_data [OF b]
  note f = updateOrderItemBaseSchema_issue_field [OF u]
  have nb: "\<forall>p m. (p, m) \<in> set ubase \<longrightarrow>
             m \<noteq> Some ''Harga kustom wajib diisi jika tipe harga adalah CUSTOM'' \<and>
             m \<noteq> Some ''Alasan harga kustom wajib diisi jika tipe harga adalah CUSTOM'' \<and>
             m \<noteq> Some ''Diskon persentase tidak boleh melebihi 100%''"
    using f(2-4) by blast
  note r = item_refinements_member [OF nb i]
  show "(ctx @ [Key ''customPrice''],
           Some ''Harga kustom wajib diisi jika tipe harga adalah CUSTOM'') \<in> set issues \<longleftrightarrow>
         priceType item = Some CUSTOM \<and>
         \<not> (\<exists>price. customPrice data = Value price \<and> js_less (Finite 0) price)"
    unfolding r(1) price_condition d(2) default_price_type by blast
  show "(ctx @ [Key ''customPriceReason''],
           Some ''Alasan harga kustom wajib diisi jika tipe harga adalah CUSTOM'') \<in> set issues \<longleftrightarrow>
         priceType item = Some CUSTOM \<and>
         \<not> (\<exists>reason. customPriceReason item = Value reason \<and> trim reason \<noteq> [])"
    unfolding r(2) d(3) reason_condition d(2) default_price_type by blast
  show "(ctx @ [Key ''itemDiscountValue''],
           Some ''Diskon persentase tidak boleh melebihi 100%'') \<in> set issues \<longleftrightarrow>
         itemDiscountType data = Value PERCENTAGE \<and> js_less (Finite 100) (itemDiscountValue data)"
    unfolding r(3) by (simp add: js_less_def)
  show "productId data = productId item" by (rule d(1))
  show "isDeleted data = isDeleted item"
    using d(5) by (cases data; cases item) simp
  have fb: "\<forall>p m. (p, m) \<in> set ubase \<longrightarrow> (\<exists>k. p = ctx @ [Key k])"
    using f(1) by blast
  show "(p, m) \<in> set issues \<Longrightarrow> \<exists>k. p = ctx @ [Key k]"
    using item_refinements_field [OF fb i] by blast
  show "itemDiscountType data = itemDiscountType item" by (rule d(4))
qed

subsection \<open>When a schema returns\<close>

lemma returns_iff: "returns r \<longleftrightarrow> (\<exists>issues v. r = Inr (issues, v))"
  by (cases r) (auto simp: returns_def)

lemma returns_Inr: "returns (Inr x)"
  by (simp add: returns_def)

lemma returns_bind1: "returns (bind r (\<lambda>issues v. Inr (g issues v))) \<longleftrightarrow> returns r"
  by (cases r) (auto simp: returns_def bind_def)

lemma returns_bind2:
  "returns (bind r1 (\<lambda>i1 v1. bind r2 (\<lambda>i2 v2. Inr (g i1 v1 i2 v2)))) \<longleftrightarrow>
   returns r1 \<and> returns r2"
  by (cases r1; cases r2) (auto simp: returns_def bind_def)

lemma decimalSchema_returns:
  "returns (decimalSchema lib maxDigits decimalPlaces message ctx d) \<longleftrightarrow> numeric lib d"
  by (auto simp: decimalSchema_def numeric_def returns_def
      split: decimal_input.splits option.splits)

lemma decimal_nullish_returns:
  "returns (decimal_nullish lib maxDigits decimalPlaces message ctx d) \<longleftrightarrow>
   (case d of Value x \<Rightarrow> numeric lib x | _ \<Rightarrow> True)"
  by (cases d) (simp_all add: decimal_nullish_def returns_bind1 decimalSchema_returns returns_Inr)

lemma decimal_default_returns:
  "returns (decimal_default lib maxDigits decimalPlaces message dflt ctx d) \<longleftrightarrow>
   (case d of Some x \<Rightarrow> numeric lib x | None \<Rightarrow> True)"
  by (cases d) (simp_all add: decimal_default_def decimalSchema_returns numeric_def)

lemma decimal_optional_returns:
  "returns (decimal_optional lib maxDigits decimalPlaces message ctx d) \<longleftrightarrow>
   (case d of Some x \<Rightarrow> numeric lib x | None \<Rightarrow> True)"
  by (cases d) (simp_all add: decimal_optional_def returns_bind1 decimalSchema_returns returns_Inr)

lemma createOrderItemBaseSchema_returns:
  "returns (createOrderItemBaseSchema lib ctx item) \<longleftrightarrow> item_numeric lib item"
  unfolding createOrderItemBaseSchema_def item_numeric_def returns_bind2
  by (simp add: decimal_nullish_returns decimal_default_returns)

lemma CreateOrderItemSchema_returns:
  "returns (CreateOrderItemSchema lib ctx item) \<longleftrightarrow> item_numeric lib item"
  unfolding CreateOrderItemSchema_def returns_bind1
  by (rule createOrderItemBaseSchema_returns)

lemma updateOrderItemBaseSchema_returns:
  "returns (updateOrderItemBaseSchema lib ctx item) \<longleftrightarrow> item_numeric lib item"
  unfolding updateOrderItemBaseSchema_def returns_bind1
  by (rule createOrderItemBaseSchema_returns)

lemma UpdateOrderItemSchema_returns:
  "returns (UpdateOrderItemSchema lib ctx item) \<longleftrightarrow> item_numeric lib item"
  unfolding UpdateOrderItemSchema_def returns_bind1
  by (rule updateOrderItemBaseSchema_returns)

subsection \<open>Arrays of items\<close>

lemma parse_array_nth:
  "parse_array schema ctx i xs = Inr (issues, ys) \<Longrightarrow> j < length xs \<Longrightarrow>
   \<exists>js. schema (ctx @ [Index (i + j)]) (xs ! j) = Inr (js, ys ! j) \<and> set js \<subseteq> set issues"
proof (induction xs arbitrary: i issues ys j)
  case Nil
  then show ?case by simp
next
  case (Cons x xs)
  from Cons.prems(1) obtain is0 y is1 ys1 where
    h: "schema (ctx @ [Index i]) x = Inr (is0, y)"
    and t: "parse_array schema ctx (Suc i) xs = Inr (is1, ys1)"
    and e: "issues = is0 @ is1" "ys = y # ys1"
    by (auto simp: bind_Inr_iff)
  show ?case
  proof (cases j)
    case 0
    with h e show ?thesis by simp
  next
    case (Suc k)
    with Cons.prems(2) have "k < length xs" by simp
    from Cons.IH [OF t this] obtain js where
      "schema (ctx @ [Index (Suc i + k)]) (xs ! k) = Inr (js, ys1 ! k)" "set js \<subseteq> set is1"
      by blast
    with Suc e show ?thesis by auto
  qed
qed

lemma parse_array_issue:
  "parse_array schema ctx i xs = Inr (issues, ys) \<Longrightarrow> (p, m) \<in> set issues \<Longrightarrow>
   \<exists>j js y. j < length xs \<and> schema (ctx @ [Index (i + j)]) (xs ! j) = Inr (js, y) \<and> (p, m) \<in> set js"
proof (induction xs arbitrary: i issues ys)
  case Nil
  then show ?case by simp
next
  case (Cons x xs)
  from Cons.prems(1) obtain is0 y is1 ys1 where
    h: "schema (ctx @ [Index i]) x = Inr (is0, y)"
    and t: "parse_array schema ctx (Suc i) xs = Inr (is1, ys1)"
    and e: "issues = is0 @ is1"
    by (auto simp: bind_Inr_iff)
  from Cons.prems(2) e consider "(p, m) \<in> set is0" | "(p, m) \<in> set is1" by auto
  then show ?case
  proof cases
    case 1
    with h have "0 < length (x # xs) \<and> schema (ctx @ [Index (i + 0)]) ((x # xs) ! 0) = Inr (is0, y) \<and>
        (p, m) \<in> set is0" by simp
    then show ?thesis by blast
  next
    case 2
    from Cons.IH [OF t 2] obtain j js y' where
      "j < length xs" "schema (ctx @ [Index (Suc i + j)]) (xs ! j) = Inr (js, y')" "(p, m) \<in> set js"
      by blast
    then have "Suc j < length (x # xs) \<and>
        schema (ctx @ [Index (i + Suc j)]) ((x # xs) ! Suc j) = Inr (js, y') \<and> (p, m) \<in> set js"
      by simp
    then show ?thesis by blast
  qed
qed

lemma parse_array_list_all2:
  assumes "\<forall>c x js y. schema c x = Inr (js, y) \<longrightarrow> R x y"
  shows "parse_array schema ctx i xs = Inr (issues, ys) \<Longrightarrow> list_all2 R xs ys"
proof (induction xs arbitrary: i issues ys)
  case Nil
  then show ?case by simp
next
  case (Cons x xs)
  from Cons.prems obtain is0 y is1 ys1 where
    h: "schema (ctx @ [Index i]) x = Inr (is0, y)"
    and t: "parse_array schema ctx (Suc i) xs = Inr (is1, ys1)"
    and e: "ys = y # ys1"
    by (auto simp: bind_Inr_iff)
  from h assms have "R x y" by blast
  with Cons.IH [OF t] e show ?case by simp
qed

lemma length_remdups_distinct: "length (remdups xs) = length xs \<longleftrightarrow> distinct xs"
  by (simp add: length_remdups_eq)

text \<open>Parsing the items keeps every product id, in order.\<close>

lemma create_items_productIds:
  assumes "parse_array (CreateOrderItemSchema lib) ctx i xs = Inr (issues, ys)"
  shows "map productId ys = map productId xs"
proof -
  have "\<forall>c x js y. CreateOrderItemSchema lib c x = Inr (js, y) \<longrightarrow> productId y = productId x"
    using CreateOrderItemSchema_violations(4) by blast
  from parse_array_list_all2 [OF this assms] show ?thesis
    by (induction rule: list_all2_induct) simp_all
qed

lemma update_items_productIds:
  assumes "parse_array (UpdateOrderItemSchema lib) ctx i xs = Inr (issues, ys)"
  shows "map productId (filter (\<lambda>item. isDeleted item \<noteq> Some True) ys) =
         map productId (filter (\<lambda>item. isDeleted item \<noteq> Some True) xs)"
proof -
  have "\<forall>c x js y. UpdateOrderItemSchema lib c x = Inr (js, y) \<longrightarrow>
          productId y = productId x \<and> isDeleted y = isDeleted x"
    using UpdateOrderItemSchema_violations(4,5) by blast
  from parse_array_list_all2 [OF this assms] show ?thesis
    by (induction rule: list_all2_induct) simp_all
qed

subsection \<open>Orders\<close>

lemma createOrderBaseSchema_Inr:
  assumes "createOrderBaseSchema lib ctx order = Inr (issues, data)"
  obtains dv_issues items_issues where
    "decimal_default lib 10 2 (Some ''Nilai diskon order harus valid'') (Finite 0)
       (ctx @ [Key ''orderDiscountValue'']) (orderDiscountValue order) =
     Inr (dv_issues, orderDiscountValue data)"
    and "parse_array (CreateOrderItemSchema lib) (ctx @ [Key ''items'']) 0 (items order) =
     Inr (items_issues, items data)"
    and "issues =
      commonValidations_id lib (ctx @ [Key ''storeId'']) (storeId order) @
      check (uuid lib (salesId order)) None (ctx @ [Key ''salesId'']) @
      check (1 \<le> length (salesId order)) (Some ''Sales ID tidak boleh kosong'')
        (ctx @ [Key ''salesId'']) @
      (case visitId order of
         Value s \<Rightarrow> check (uuid lib s) None (ctx @ [Key ''visitId''])
       | _ \<Rightarrow> []) @
      dv_issues @
      check (1 \<le> length (items order)) (Some ''Order harus memiliki minimal 1 item'')
        (ctx @ [Key ''items'']) @
      items_issues"
    and "orderDiscountType data = orderDiscountType order"
  using assms by (auto simp: createOrderBaseSchema_def bind_Inr_iff)

lemma updateOrderBaseSchema_Inr:
  assumes "updateOrderBaseSchema lib ctx order = Inr (issues, data)"
  obtains dv_issues items_issues where
    "decimal_optional lib 10 2 (Some ''Nilai diskon order harus valid'')
       (ctx @ [Key ''orderDiscountValue'']) (orderDiscountValue order) =
     Inr (dv_issues, orderDiscountValue data)"
    and "parse_array (UpdateOrderItemSchema lib) (ctx @ [Key ''items'']) 0 (items order) =
     Inr (items_issues, items data)"
    and "issues =
      commonValidations_id lib (ctx @ [Key ''id'']) (order_id order) @
      dv_issues @
      check (1 \<le> length (items order)) (Some ''Order harus memiliki minimal 1 item'')
        (ctx @ [Key ''items'']) @
      items_issues"
    and "orderDiscountType data = orderDiscountType order"
  using assms by (auto simp: updateOrderBaseSchema_def bind_Inr_iff)

text \<open>
  The violations of an order's fields and items never coincide with those of the order's
  two refinements: they lie on other paths or carry other messages.
\<close>

lemma create_items_issue_path:
  assumes "parse_array (CreateOrderItemSchema lib) (ctx @ [Key ''items'']) 0 xs = Inr (issues, ys)"
    and "(p, m) \<in> set issues"
  shows "\<exists>j k. p = ctx @ [Key ''items'', Index j, Key k]"
proof -
  from parse_array_issue [OF assms] obtain j js y where
    "CreateOrderItemSchema lib ((ctx @ [Key ''items'']) @ [Index (0 + j)]) (xs ! j) = Inr (js, y)"
    and "(p, m) \<in> set js"
    by blast
  from CreateOrderItemSchema_violations(5) [OF this] show ?thesis by auto
qed

lemma update_items_issue_path:
  assumes "parse_array (UpdateOrderItemSchema lib) (ctx @ [Key ''items'']) 0 xs = Inr (issues, ys)"
    and "(p, m) \<in> set issues"
  shows "\<exists>j k. p = ctx @ [Key ''items'', Index j, Key k]"
proof -
  from parse_array_issue [OF assms] obtain j js y where
    "UpdateOrderItemSchema lib ((ctx @ [Key ''items'']) @ [Index (0 + j)]) (xs ! j) = Inr (js, y)"
    and "(p, m) \<in> set js"
    by blast
  from UpdateOrderItemSchema_violations(6) [OF this] show ?thesis by auto
qed

lemma createOrderBaseSchema_no_refinement_issue:
  assumes "createOrderBaseSchema lib ctx order = Inr (issues, data)"
  shows "(ctx @ [Key ''orderDiscountValue''], Some ''Diskon persentase tidak boleh melebihi 100%'')
           \<notin> set issues"
    and "(ctx @ [Key ''items''], Some ''Produk tidak boleh duplikat dalam satu order'') \<notin> set issues"
proof -
  from assms obtain dv_issues items_issues where
    dv: "decimal_default lib 10 2 (Some ''Nilai diskon order harus valid'') (Finite 0)
       (ctx @ [Key ''orderDiscountValue'']) (orderDiscountValue order) =
     Inr (dv_issues, orderDiscountValue data)"
    and it: "parse_array (CreateOrderItemSchema lib) (ctx @ [Key ''items'']) 0 (items order) =
     Inr (items_issues, items data)"
    and i: "issues =
      commonValidations_id lib (ctx @ [Key ''storeId'']) (storeId order) @
      check (uuid lib (salesId order)) None (ctx @ [Key ''salesId'']) @
      check (1 \<le> length (salesId order)) (Some ''Sales ID tidak boleh kosong'')
        (ctx @ [Key ''salesId'']) @
      (case visitId order of
         Value s \<Rightarrow> check (uuid lib s) None (ctx @ [Key ''visitId''])
       | _ \<Rightarrow> []) @
      dv_issues @
      check (1 \<le> length (items order)) (Some ''Order harus memiliki minimal 1 item'')
        (ctx @ [Key ''items'']) @
      items_issues"
    by (rule createOrderBaseSchema_Inr)
  have a: "(ctx @ [Key ''orderDiscountValue''], Some ''Diskon persentase tidak boleh melebihi 100%'')
      \<notin> set dv_issues"
    and b: "(ctx @ [Key ''items''], Some ''Produk tidak boleh duplikat dalam satu order'')
      \<notin> set dv_issues"
    using decimal_default_issue [OF dv] by fastforce+
  have c: "(ctx @ [Key ''orderDiscountValue''], m) \<notin> set items_issues"
    and d: "(ctx @ [Key ''items''], m) \<notin> set items_issues" for m
    using create_items_issue_path [OF it] by fastforce+
  show "(ctx @ [Key ''orderDiscountValue''], Some ''Diskon persentase tidak boleh melebihi 100%'')
           \<notin> set issues"
    unfolding i using a c
    by (simp add: check_member commonValidations_id_def split: nullish.splits)
  show "(ctx @ [Key ''items''], Some ''Produk tidak boleh duplikat dalam satu order'') \<notin> set issues"
    unfolding i using b d
    by (simp add: check_member commonValidations_id_def split: nullish.splits)
qed

lemma updateOrderBaseSchema_no_refinement_issue:
  assumes "updateOrderBaseSchema lib ctx order = Inr (issues, data)"
  shows "(ctx @ [Key ''orderDiscountValue''], Some ''Diskon persentase tidak boleh melebihi 100%'')
           \<notin> set issues"
    and "(ctx @ [Key ''items''], Some ''Produk tidak boleh duplikat dalam satu order'') \<notin> set issues"
proof -
  from assms obtain dv_issues items_issues where
    dv: "decimal_optional lib 10 2 (Some ''Nilai diskon order harus valid'')
       (ctx @ [Key ''orderDiscountValue'']) (orderDiscountValue order) =
     Inr (dv_issues, orderDiscountValue data)"
    and it: "parse_array (UpdateOrderItemSchema lib) (ctx @ [Key ''items'']) 0 (items order) =
     Inr (items_issues, items data)"
    and i: "issues =
      commonValidations_id lib (ctx @ [Key ''id'']) (order_id order) @
      dv_issues @
      check (1 \<le> length (items order)) (Some ''Order harus memiliki minimal 1 item'')
        (ctx @ [Key ''items'']) @
      items_issues"
    by (rule updateOrderBaseSchema_Inr)
  have a: "(ctx @ [Key ''orderDiscountValue''], Some ''Diskon persentase tidak boleh melebihi 100%'')
      \<notin> set dv_issues"
    and b: "(ctx @ [Key ''items''], Some ''Produk tidak boleh duplikat dalam satu order'')
      \<notin> set dv_issues"
    using decimal_optional_issue [OF dv] by fastforce+
  have c: "(ctx @ [Key ''orderDiscountValue''], m) \<notin> set items_issues"
    and d: "(ctx @ [Key ''items''], m) \<notin> set items_issues" for m
    using update_items_issue_path [OF it] by fastforce+
  show "(ctx @ [Key ''orderDiscountValue''], Some ''Diskon persentase tidak boleh melebihi 100%'')
           \<notin> set issues"
    unfolding i using a c
    by (simp add: check_member commonValidations_id_def)
  show "(ctx @ [Key ''items''], Some ''Produk tidak boleh duplikat dalam satu order'') \<notin> set issues"
    unfolding i using b d
    by (simp add: check_member commonValidations_id_def)
qed

lemma CreateOrderSchema_Inr:
  assumes "CreateOrderSchema lib ctx order = Inr (issues, data)"
  obtains base where "createOrderBaseSchema lib ctx order = Inr (base, data)"
    and "issues = base @
            refine (orderDiscountType data \<noteq> Value PERCENTAGE \<or>
                    js_le (orderDiscountValue data) (Finite 100))
              ''Diskon persentase tidak boleh melebihi 100%'' [Key ''orderDiscountValue''] ctx @
            refine (let productIds = map productId (items data)
                    in length (remdups productIds) = length productIds)
              ''Produk tidak boleh duplikat dalam satu order'' [Key ''items''] ctx"
  using assms by (auto simp: CreateOrderSchema_def bind_Inr_iff)

lemma UpdateOrderSchema_Inr:
  assumes "UpdateOrderSchema lib ctx order = Inr (issues, data)"
  obtains base where "updateOrderBaseSchema lib ctx order = Inr (base, data)"
    and "issues = base @
            refine (orderDiscountType data \<noteq> Value PERCENTAGE \<or>
                    orderDiscountValue data = None \<or>
                    (case orderDiscountValue data of
                       None \<Rightarrow> False
                     | Some v \<Rightarrow> js_le v (Finite 100)))
              ''Diskon persentase tidak boleh melebihi 100%'' [Key ''orderDiscountValue''] ctx @
            refine (let nonDeletedItems = filter (\<lambda>item. isDeleted item \<noteq> Some True) (items data);
                        productIds = map productId nonDeletedItems
                    in length (remdups productIds) = length productIds)
              ''Produk tidak boleh duplikat dalam satu order'' [Key ''items''] ctx"
  using assms by (auto simp: UpdateOrderSchema_def bind_Inr_iff)

lemma CreateOrderSchema_violations:
  assumes "CreateOrderSchema lib ctx order = Inr (issues, data)"
  shows "(ctx @ [Key ''orderDiscountValue''], Some ''Diskon persentase tidak boleh melebihi 100%'')
           \<in> set issues \<longleftrightarrow>
         orderDiscountType data = Value PERCENTAGE \<and> js_less (Finite 100) (orderDiscountValue data)"
    and "(ctx @ [Key ''items''], Some ''Produk tidak boleh duplikat dalam satu order'') \<in> set issues \<longleftrightarrow>
         \<not> distinct (map productId (items order))"
    and "i < length (items order) \<Longrightarrow>
         itemDiscountType (items data ! i) = Value PERCENTAGE \<Longrightarrow>
         js_less (Finite 100) (itemDiscountValue (items data ! i)) \<Longrightarrow>
         (ctx @ [Key ''items'', Index i, Key ''itemDiscountValue''],
            Some ''Diskon persentase tidak boleh melebihi 100%'') \<in> set issues"
    and "orderDiscountType data = orderDiscountType order"
    and "i < length (items order) \<Longrightarrow>
         itemDiscountType (items data ! i) = itemDiscountType (items order ! i)"
proof -
  from assms obtain base where b: "createOrderBaseSchema lib ctx order = Inr (base, data)"
    and e: "issues = base @
            refine (orderDiscountType data \<noteq> Value PERCENTAGE \<or>
                    js_le (orderDiscountValue data) (Finite 100))
              ''Diskon persentase tidak boleh melebihi 100%'' [Key ''orderDiscountValue''] ctx @
            refine (let productIds = map productId (items data)
                    in length (remdups productIds) = length productIds)
              ''Produk tidak boleh duplikat dalam satu order'' [Key ''items''] ctx"
    by (rule CreateOrderSchema_Inr)
  from b obtain dv_issues items_issues where
    it: "parse_array (CreateOrderItemSchema lib) (ctx @ [Key ''items'']) 0 (items order) =
     Inr (items_issues, items data)"
    and bi: "set items_issues \<subseteq> set base"
    and ty: "orderDiscountType data = orderDiscountType order"
    by (rule createOrderBaseSchema_Inr) auto
  note n = createOrderBaseSchema_no_refinement_issue [OF b]
  show "(ctx @ [Key ''orderDiscountValue''], Some ''Diskon persentase tidak boleh melebihi 100%'')
           \<in> set issues \<longleftrightarrow>
         orderDiscountType data = Value PERCENTAGE \<and> js_less (Finite 100) (orderDiscountValue data)"
    unfolding e using n(1) by (simp add: refine_member js_less_def)
  show "(ctx @ [Key ''items''], Some ''Produk tidak boleh duplikat dalam satu order'') \<in> set issues \<longleftrightarrow>
         \<not> distinct (map productId (items order))"
    unfolding e using n(2)
    by (simp add: refine_member length_remdups_distinct create_items_productIds [OF it])
  show "(ctx @ [Key ''items'', Index i, Key ''itemDiscountValue''],
            Some ''Diskon persentase tidak boleh melebihi 100%'') \<in> set issues"
    if "i < length (items order)" "itemDiscountType (items data ! i) = Value PERCENTAGE"
      "js_less (Finite 100) (itemDiscountValue (items data ! i))"
  proof -
    from parse_array_nth [OF it that(1)] obtain js where
      s: "CreateOrderItemSchema lib ((ctx @ [Key ''items'']) @ [Index (0 + i)]) (items order ! i) =
          Inr (js, items data ! i)"
      and "set js \<subseteq> set items_issues"
      by blast
    moreover from CreateOrderItemSchema_violations(3) [OF s] that(2,3)
    have "(((ctx @ [Key ''items'']) @ [Index (0 + i)]) @ [Key ''itemDiscountValue''],
            Some ''Diskon persentase tidak boleh melebihi 100%'') \<in> set js"
      by simp
    ultimately show ?thesis using bi e by auto
  qed
  show "orderDiscountType data = orderDiscountType order" by (rule ty)
  show "itemDiscountType (items data ! i) = itemDiscountType (items order ! i)"
    if "i < length (items order)"
  proof -
    from parse_array_nth [OF it that] obtain js where
      "CreateOrderItemSchema lib ((ctx @ [Key ''items'']) @ [Index (0 + i)]) (items order ! i) =
         Inr (js, items data ! i)"
      by blast
    then show ?thesis by (rule CreateOrderItemSchema_violations(6))
  qed
qed

lemma UpdateOrderSchema_violations:
  assumes "UpdateOrderSchema lib ctx order = Inr (issues, data)"
  shows "(ctx @ [Key ''orderDiscountValue''], Some ''Diskon persentase tidak boleh melebihi 100%'')
           \<in> set issues \<longleftrightarrow>
         orderDiscountType data = Value PERCENTAGE \<and>
         (\<exists>v. orderDiscountValue data = Some v \<and> js_less (Finite 100) v)"
    and "(ctx @ [Key ''items''], Some ''Produk tidak boleh duplikat dalam satu order'') \<in> set issues \<longleftrightarrow>
         \<not> distinct (map productId (filter (\<lambda>item. isDeleted item \<noteq> Some True) (items order)))"
    and "i < length (items order) \<Longrightarrow>
         itemDiscountType (items data ! i) = Value PERCENTAGE \<Longrightarrow>
         js_less (Finite 100) (itemDiscountValue (items data ! i)) \<Longrightarrow>
         (ctx @ [Key ''items'', Index i, Key ''itemDiscountValue''],
            Some ''Diskon persentase tidak boleh melebihi 100%'') \<in> set issues"
    and "orderDiscountType data = orderDiscountType order"
    and "i < length (items order) \<Longrightarrow>
         itemDiscountType (items data ! i) = itemDiscountType (items order ! i)"
proof -
  from assms obtain base where b: "updateOrderBaseSchema lib ctx order = Inr (base, data)"
    and e: "issues = base @
            refine (orderDiscountType data \<noteq> Value PERCENTAGE \<or>
                    orderDiscountValue data = None \<or>
                    (case orderDiscountValue data of
                       None \<Rightarrow> False
                     | Some v \<Rightarrow> js_le v (Finite 100)))
              ''Diskon persentase tidak boleh melebihi 100%'' [Key ''orderDiscountValue''] ctx @
            refine (let nonDeletedItems = filter (\<lambda>item. isDeleted item \<noteq> Some True) (items data);
                        productIds = map productId nonDeletedItems
                    in length (remdups productIds) = length productIds)
              ''Produk tidak boleh duplikat dalam satu order'' [Key ''items''] ctx"
    by (rule UpdateOrderSchema_Inr)
  from b obtain dv_issues items_issues where
    it: "parse_array (UpdateOrderItemSchema lib) (ctx @ [Key ''items'']) 0 (items order) =
     Inr (items_issues, items data)"
    and bi: "set items_issues \<subseteq> set base"
    and ty: "orderDiscountType data = orderDiscountType order"
    by (rule updateOrderBaseSchema_Inr) auto
  note n = updateOrderBaseSchema_no_refinement_issue [OF b]
  show "(ctx @ [Key ''orderDiscountValue''], Some ''Diskon persentase tidak boleh melebihi 100%'')
           \<in> set issues \<longleftrightarrow>
         orderDiscountType data = Value PERCENTAGE \<and>
         (\<exists>v. orderDiscountValue data = Some v \<and> js_less (Finite 100) v)"
    unfolding e using n(1) by (auto simp: refine_member js_less_def split: option.splits)
  show "(ctx @ [Key ''items''], Some ''Produk tidak boleh duplikat dalam satu order'') \<in> set issues \<longleftrightarrow>
         \<not> distinct (map productId (filter (\<lambda>item. isDeleted item \<noteq> Some True) (items order)))"
    unfolding e using n(2)
    by (simp add: refine_member length_remdups_distinct update_items_productIds [OF it])
  show "(ctx @ [Key ''items'', Index i, Key ''itemDiscountValue''],
            Some ''Diskon persentase tidak boleh melebihi 100%'') \<in> set issues"
    if "i < length (items order)" "itemDiscountType (items data ! i) = Value PERCENTAGE"
      "js_less (Finite 100) (itemDiscountValue (items data ! i))"
  proof -
    from parse_array_nth [OF it that(1)] obtain js where
      s: "UpdateOrderItemSchema lib ((ctx @ [Key ''items'']) @ [Index (0 + i)]) (items order ! i) =
          Inr (js, items data ! i)"
      and "set js \<subseteq> set items_issues"
      by blast
    moreover from UpdateOrderItemSchema_violations(3) [OF s] that(2,3)
    have "(((ctx @ [Key ''items'']) @ [Index (0 + i)]) @ [Key ''itemDiscountValue''],
            Some ''Diskon persentase tidak boleh melebihi 100%'') \<in> set js"
      by simp
    ultimately show ?thesis using bi e by auto
  qed
  show "orderDiscountType data = orderDiscountType order" by (rule ty)
  show "itemDiscountType (items data ! i) = itemDiscountType (items order ! i)"
    if "i < length (items order)"
  proof -
    from parse_array_nth [OF it that] obtain js where
      "UpdateOrderItemSchema lib ((ctx @ [Key ''items'']) @ [Index (0 + i)]) (items order ! i) =
         Inr (js, items data ! i)"
      by blast
    then show ?thesis by (rule UpdateOrderItemSchema_violations(7))
  qed
qed

lemma parse_array_returns:
  assumes "\<forall>c x. returns (schema c x) \<longleftrightarrow> P x"
  shows "returns (parse_array schema ctx i xs) \<longleftrightarrow> list_all P xs"
proof (induction xs arbitrary: i)
  case Nil
  then show ?case by (simp add: returns_Inr)
next
  case (Cons x xs)
  have "returns (parse_array schema ctx i (x # xs)) \<longleftrightarrow>
        returns (schema (ctx @ [Index i]) x) \<and> returns (parse_array schema ctx (Suc i) xs)"
    unfolding parse_array.simps by (rule returns_bind2)
  with Cons assms show ?case by simp
qed

lemma CreateOrderSchema_returns:
  "returns (CreateOrderSchema lib ctx order) \<longleftrightarrow> order_numeric lib order"
proof -
  have a: "returns (parse_array (CreateOrderItemSchema lib) (ctx @ [Key ''items'']) 0 (items order))
        \<longleftrightarrow> list_all (item_numeric lib) (items order)"
    by (rule parse_array_returns) (simp add: CreateOrderItemSchema_returns)
  have "returns (createOrderBaseSchema lib ctx order) \<longleftrightarrow> order_numeric lib order"
    unfolding createOrderBaseSchema_def order_numeric_def returns_bind2
    by (simp add: a decimal_default_returns)
  then show ?thesis
    unfolding CreateOrderSchema_def returns_bind1 .
qed

lemma UpdateOrderSchema_returns:
  "returns (UpdateOrderSchema lib ctx order) \<longleftrightarrow> order_numeric lib order"
proof -
  have a: "returns (parse_array (UpdateOrderItemSchema lib) (ctx @ [Key ''items'']) 0 (items order))
        \<longleftrightarrow> list_all (item_numeric lib) (items order)"
    by (rule parse_array_returns) (simp add: UpdateOrderItemSchema_returns)
  have "returns (updateOrderBaseSchema lib ctx order) \<longleftrightarrow> order_numeric lib order"
    unfolding updateOrderBaseSchema_def order_numeric_def returns_bind2
    by (simp add: a decimal_optional_returns)
  then show ?thesis
    unfolding UpdateOrderSchema_def returns_bind1 .
qed

section \<open>Validation schemas: results\<close>

text \<open>
  A schema for items or orders returns exactly when the decimal fields of the request are
  numeric (\<open>item_numeric\<close>, \<open>order_numeric\<close>); on any other request it throws, reports
  nothing, and the request is not valid. When it returns, \<open>issues\<close> is the list of violations
  it reports and \<open>data\<close> the parsed request the refinements saw: in \<open>data\<close> a decimal field
  is the number the request gave, or the number \<^verbatim>\<open>parseFloat\<close> read from the string it gave.
\<close>

text \<open>The number a decimal field is parsed to, and when the parse throws.\<close>

lemma decimalSchema_value:
  assumes "decimalSchema lib maxDigits decimalPlaces message ctx d = Inr (issues, v)"
  shows "d = Number v \<or> (\<exists>s. d = Text s \<and> parseFloat lib s = Some v)"
  using assms by (auto simp: decimalSchema_def split: decimal_input.splits option.splits)

lemma decimalSchema_throws:
  "(\<exists>e. decimalSchema lib maxDigits decimalPlaces message ctx d = Inl e) \<longleftrightarrow>
   (\<exists>s. d = Text s \<and> parseFloat lib s = None)"
  by (auto simp: decimalSchema_def split: decimal_input.splits option.splits)

lemma example_uuids:
  "uuid_shape ''123e4567-e89b-42d3-a456-426614174000''"
  "uuid_shape ''223e4567-e89b-42d3-a456-426614174000''"
  "uuid_shape ''323e4567-e89b-42d3-a456-426614174000''"
  by code_simp+

lemmas schema_defs =
  CreateOrderItemSchema_def UpdateOrderItemSchema_def createOrderItemBaseSchema_def
  updateOrderItemBaseSchema_def CreateOrderSchema_def UpdateOrderSchema_def
  createOrderBaseSchema_def updateOrderBaseSchema_def bind_def decimal_nullish_def
  decimal_default_def decimal_optional_def decimalSchema_def refine_def check_def
  commonValidations_id_def fits_digits_def js_less_def trim_def is_white_space_def

lemmas example_library_defs =
  example_library_def example_uuids is_digit_def number_of_digits_def digit_value_def
  digit_char_def String_nat.simps

lemma throws_not_valid: "\<not> returns r \<Longrightarrow> \<not> valid r \<and> violations r = []"
  by (cases r) (auto simp: returns_def valid_def violations_def)










text \<open>
  The schema for a status change reports the same violations whatever the rejection reason
  is, and never throws: the two statuses are members of the enum.
\<close>

lemma UpdateOrderStatusSchema_Inr:
  "\<exists>data. UpdateOrderStatusSchema lib ctx request =
     Inr (commonValidations_id lib (ctx @ [Key ''id'']) (request_id request) @
          check (uuid lib (userId request)) (Some ''ID user tidak valid'') (ctx @ [Key ''userId'']) @
          refine ((currentStatus request, newStatus request) \<in>
                    {(DRAFT, DISETUJUI), (DRAFT, TIDAK_TERKIRIM), (DISETUJUI, TERKIRIM),
                     (DISETUJUI, TIDAK_TERKIRIM), (TIDAK_TERKIRIM, DISETUJUI)})
            ''Transisi status tidak valid'' [Key ''newStatus''] ctx,
          data)"
  by (simp add: UpdateOrderStatusSchema_def Let_def validateStatusTransition_OrderStatus)




end
